theory Spec2Isabelle
  imports Complex_Main "HOL-Library.AList"
begin

section \<open>The generation gateway of \<^verbatim>\<open>server/main.go\<close>\<close>

text \<open>
  The program is one HTTP handler, \<^verbatim>\<open>generateHandler\<close>, and the function
  \<^verbatim>\<open>queryExternalAPI\<close> it delegates to. Both are embedded below, branch by branch.
  What they call outside the repository (the process environment, the HTTP client and
  \<^verbatim>\<open>encoding/json\<close>) is not modelled by guessing: it is a parameter of the
  embedding, collected in the record \<open>world\<close>. What the handler does to its
  \<^verbatim>\<open>http.ResponseWriter\<close> is recorded as the sequence of calls it makes on it.
\<close>

subsection \<open>Data model\<close>

text \<open>
  The two exported structs. Go's \<^verbatim>\<open>int\<close> is modelled by \<open>int\<close> (the code only
  compares it with 0 and stores 512, nothing can overflow) and \<^verbatim>\<open>float64\<close> by
  the real number a value denotes (the code only compares it with 0, where both signed
  zeros are equal, and stores the constant 0.1; no arithmetic is done on it).
  The field \<^verbatim>\<open>Model\<close> of \<^verbatim>\<open>GenerationResponse\<close> is named \<open>RespModel\<close>,
  since a field name can be declared once.
\<close>

record GenerationRequest =
  Model :: string
  Prompt :: string
  Stream :: bool
  MaxTokens :: int
  Temperature :: real

record GenerationResponse =
  RespModel :: string
  Response :: string
  CreatedAt :: string

definition TogetherAPIURL :: string where
  "TogetherAPIURL = ''https://api.together.xyz/v1/completions''"

text \<open>
  The anonymous decode targets: \<^verbatim>\<open>chunk\<close> (streaming, lines 102-108) and
  \<^verbatim>\<open>result\<close> (non-streaming, lines 125-129).
\<close>

record delta =
  Content :: string

record chunk_choice =
  Delta :: delta

record chunk =
  Choices :: "chunk_choice list"

record result_choice =
  Text :: string

record result =
  ResultChoices :: "result_choice list"

subsection \<open>The world outside the repository\<close>

text \<open>
  A value of the map \<^verbatim>\<open>requestBody\<close> (\<^verbatim>\<open>map[string]interface{}\<close>).
\<close>

datatype json_value = JString string | JInt int | JFloat real | JBool bool

text \<open>
  The inbound request (the two fields the handler reads), the outbound request built
  by \<^verbatim>\<open>http.NewRequest\<close>, and the upstream response.
\<close>

record Request =
  Method :: string
  Body :: string

record client_request =
  ReqMethod :: string
  ReqURL :: string
  ReqHeader :: "(string \<times> string) list"
  ReqBody :: string

record client_response =
  StatusCode :: int
  RespBody :: string

text \<open>
  A \<^verbatim>\<open>json.Decoder\<close> over a body, seen through the two calls the loop makes:
  \<^verbatim>\<open>More()\<close> and \<^verbatim>\<open>Decode(&chunk)\<close>. The decoder is the list of the outcomes
  its successive \<^verbatim>\<open>Decode\<close> calls would have, up to the point where
  \<^verbatim>\<open>More()\<close> answers false (end of input, or a stray closing bracket). The list
  is finite: an upstream that never closes its body keeps the loop running for ever, and
  is outside this model.
\<close>

datatype 'a decode_step = Decoded 'a | DecodeError string

text \<open>
  The parameters of the embedding. \<open>Inl\<close> carries the text of a Go \<^verbatim>\<open>error\<close>.
  \<^item> \<open>Getenv\<close>: \<^verbatim>\<open>os.Getenv\<close> (the empty string for an unset variable);
  \<^item> \<open>Do\<close>: \<^verbatim>\<open>http.DefaultClient.Do\<close>;
  \<^item> \<open>Marshal\<close>: \<^verbatim>\<open>json.Marshal\<close> on the request map;
  \<^item> \<open>DecodeRequest\<close>: \<^verbatim>\<open>json.NewDecoder(r.Body).Decode(&req)\<close>;
  \<^item> \<open>DecodeResult\<close>: \<^verbatim>\<open>json.NewDecoder(resp.Body).Decode(&result)\<close>;
  \<^item> \<open>NewDecoder\<close>: \<^verbatim>\<open>json.NewDecoder(resp.Body)\<close> as used by the streaming loop.
\<close>

record world =
  Getenv :: "string \<Rightarrow> string"
  Do :: "client_request \<Rightarrow> string + client_response"
  Marshal :: "(string \<times> json_value) list \<Rightarrow> string + string"
  DecodeRequest :: "string \<Rightarrow> string + GenerationRequest"
  DecodeResult :: "string \<Rightarrow> string + result"
  NewDecoder :: "string \<Rightarrow> chunk decode_step list"

subsection \<open>The response writer\<close>

text \<open>
  The calls the program makes on its \<^verbatim>\<open>http.ResponseWriter\<close>:
  \<^verbatim>\<open>w.Header().Set(k, v)\<close>, \<^verbatim>\<open>w.WriteHeader(code)\<close>, \<^verbatim>\<open>w.Write(bytes)\<close>
  (through \<^verbatim>\<open>fmt.Fprintf\<close> and \<^verbatim>\<open>fmt.Fprintln\<close>), \<^verbatim>\<open>Flush()\<close> and
  \<^verbatim>\<open>json.NewEncoder(w).Encode(v)\<close>. A writer is the list of the calls made so
  far, whether its dynamic type implements \<^verbatim>\<open>http.Flusher\<close>, and the
  error its \<^verbatim>\<open>Write\<close> returns (\<open>None\<close> is nil). The program reads the result
  of one write only, the one \<^verbatim>\<open>Encode\<close> makes (line 142); \<^verbatim>\<open>fmt.Fprintf\<close>
  (line 117) and \<^verbatim>\<open>http.Error\<close> discard theirs.
\<close>

datatype call =
    HeaderSet string string
  | WriteHeader nat
  | Write string
  | Flush
  | Encode GenerationResponse

record ResponseWriter =
  implements_Flusher :: bool
  write_error :: "string option"
  calls :: "call list"

definition NewResponseWriter :: "bool \<Rightarrow> string option \<Rightarrow> ResponseWriter" where
  "NewResponseWriter fl we = \<lparr>implements_Flusher = fl, write_error = we, calls = []\<rparr>"

definition called :: "ResponseWriter \<Rightarrow> call \<Rightarrow> ResponseWriter" where
  "called w c = w\<lparr>calls := calls w @ [c]\<rparr>"

definition Header_Set :: "ResponseWriter \<Rightarrow> string \<Rightarrow> string \<Rightarrow> ResponseWriter" where
  "Header_Set w k v = called w (HeaderSet k v)"

definition Fprintf :: "ResponseWriter \<Rightarrow> string \<Rightarrow> ResponseWriter" where
  \<comment> \<open>\<^verbatim>\<open>fmt.Fprintf(w, "%s", content)\<close>: one \<^verbatim>\<open>Write\<close> of the bytes of \<open>content\<close>.\<close>
  "Fprintf w content = called w (Write content)"

definition Flusher_Flush :: "ResponseWriter \<Rightarrow> ResponseWriter" where
  "Flusher_Flush w = called w Flush"

definition Encoder_Encode ::
  "ResponseWriter \<Rightarrow> GenerationResponse \<Rightarrow> ResponseWriter \<times> string option" where
  \<comment> \<open>\<^verbatim>\<open>json.NewEncoder(w).Encode(v)\<close>: one write of the encoding; it returns the
     error of that write (two strings always marshal).\<close>
  "Encoder_Encode w v = (called w (Encode v), write_error w)"

definition http_Error :: "ResponseWriter \<Rightarrow> string \<Rightarrow> nat \<Rightarrow> ResponseWriter" where
  \<comment> \<open>\<^verbatim>\<open>http.Error\<close>: plain-text headers, the status, then the message and a newline.\<close>
  "http_Error w msg code =
     called (called (called (called w
       (HeaderSet ''Content-Type'' ''text/plain; charset=utf-8''))
       (HeaderSet ''X-Content-Type-Options'' ''nosniff''))
       (WriteHeader code))
       (Write (msg @ ''\<newline>''))"

text \<open>
  How \<^verbatim>\<open>encoding/json\<close> lays a \<^verbatim>\<open>GenerationResponse\<close> out, from the struct tags
  of lines 23-25: the fields in declaration order, \<^verbatim>\<open>created_at\<close> left out when empty
  (\<^verbatim>\<open>omitempty\<close>), and the newline \<^verbatim>\<open>Encoder.Encode\<close> ends every value with.
  How the library writes a Go string as a JSON string literal (its escapes) is the
  parameter \<open>quote\<close>.
\<close>

definition encode_GenerationResponse :: "(string \<Rightarrow> string) \<Rightarrow> GenerationResponse \<Rightarrow> string" where
  \<open>encode_GenerationResponse quote v =
     ''{"model":'' @ quote (RespModel v) @ '',"response":'' @ quote (Response v) @
     (if CreatedAt v = '''' then '''' else '',"created_at":'' @ quote (CreatedAt v)) @
     ''}'' @ ''\<newline>''\<close>

text \<open>
  What the caller receives, read off the calls as \<^verbatim>\<open>net/http\<close> treats them: the
  body is the bytes handed to the writer, in order; the status is the one of the first call that
  commits the header (\<^verbatim>\<open>WriteHeader\<close>, or 200 at the first write or flush; 200 as
  well when the handler returns having written nothing); the headers sent are the ones
  set before that call.
\<close>

fun body_bytes :: "(string \<Rightarrow> string) \<Rightarrow> call \<Rightarrow> string" where
  "body_bytes quote (Write s) = s"
| "body_bytes quote (Encode v) = encode_GenerationResponse quote v"
| "body_bytes quote (HeaderSet k v) = ''''"
| "body_bytes quote (WriteHeader c) = ''''"
| "body_bytes quote Flush = ''''"

definition body_of :: "(string \<Rightarrow> string) \<Rightarrow> ResponseWriter \<Rightarrow> string" where
  "body_of quote w = concat (map (body_bytes quote) (calls w))"

fun committed :: "call list \<Rightarrow> nat option" where
  "committed [] = None"
| "committed (HeaderSet k v # cs) = committed cs"
| "committed (WriteHeader c # cs) = Some c"
| "committed (Write s # cs) = Some 200"
| "committed (Flush # cs) = Some 200"
| "committed (Encode v # cs) = Some 200"

definition status_of :: "ResponseWriter \<Rightarrow> nat" where
  "status_of w = (case committed (calls w) of None \<Rightarrow> 200 | Some c \<Rightarrow> c)"

fun sent_header :: "call list \<Rightarrow> (string \<rightharpoonup> string) \<Rightarrow> (string \<rightharpoonup> string)" where
  "sent_header [] h = h"
| "sent_header (HeaderSet k v # cs) h = sent_header cs (h(k \<mapsto> v))"
| "sent_header (c # cs) h = h"

definition header_of :: "ResponseWriter \<Rightarrow> string \<Rightarrow> string option" where
  "header_of w = sent_header (calls w) Map.empty"

subsection \<open>The handler\<close>

text \<open>A Go call either returns or panics.\<close>

datatype 'a outcome = Return 'a | Panic string

definition nil_dereference :: string where
  "nil_dereference = ''runtime error: invalid memory address or nil pointer dereference''"

text \<open>
  The loop of lines 101-121. \<open>flusher\<close> is whether the variable \<^verbatim>\<open>flusher\<close> holds a
  value (true) or the nil interface (false); \<^verbatim>\<open>flusher.Flush()\<close> on nil panics.
  The first equation is \<^verbatim>\<open>decoder.More()\<close> answering false, the second the
  \<^verbatim>\<open>break\<close> of line 111.
\<close>

fun relay_loop :: "bool \<Rightarrow> chunk decode_step list \<Rightarrow> ResponseWriter \<Rightarrow> ResponseWriter \<times> unit outcome" where
  "relay_loop flusher [] w = (w, Return ())"
| "relay_loop flusher (DecodeError err # decoder) w = (w, Return ())"
| "relay_loop flusher (Decoded chunk # decoder) w =
     (if length (Choices chunk) > 0 then
        (let content = Content (Delta (Choices chunk ! 0)) in
         if content \<noteq> '''' then
           (let w = Fprintf w content in
            if flusher then relay_loop flusher decoder (Flusher_Flush w)
            else (w, Panic nil_dereference))
         else relay_loop flusher decoder w)
      else relay_loop flusher decoder w)"

text \<open>
  \<^verbatim>\<open>http.NewRequest\<close> and \<^verbatim>\<open>Header.Set\<close> on the outbound request. With the
  method \<^verbatim>\<open>POST\<close> and the constant URL the former has no error to return; the
  branch that handles one is kept in \<open>queryExternalAPI\<close>.
\<close>

definition http_NewRequest :: "string \<Rightarrow> string \<Rightarrow> string \<Rightarrow> string + client_request" where
  "http_NewRequest method url body =
     Inr \<lparr>ReqMethod = method, ReqURL = url, ReqHeader = [], ReqBody = body\<rparr>"

definition ReqHeader_Set :: "client_request \<Rightarrow> string \<Rightarrow> string \<Rightarrow> client_request" where
  "ReqHeader_Set r k v = r\<lparr>ReqHeader := AList.update k v (ReqHeader r)\<rparr>"

text \<open>
  \<^verbatim>\<open>queryExternalAPI\<close> (lines 60-143). It returns the writer, the requests it
  issued through the HTTP client, and its \<^verbatim>\<open>error\<close> (\<open>None\<close> is nil) or panic.
\<close>

definition queryExternalAPI ::
  "world \<Rightarrow> GenerationRequest \<Rightarrow> ResponseWriter \<Rightarrow>
   ResponseWriter \<times> client_request list \<times> string option outcome" where
  "queryExternalAPI wd req w =
    (let apiKey = Getenv wd ''TOGETHER_API_KEY'' in
     if apiKey = '''' then
       (w, [], Return (Some ''API key not set in TOGETHER_API_KEY environment variable''))
     else
      (let requestBody =
         [(''model'', JString (Model req)),
          (''prompt'', JString (Prompt req)),
          (''max_tokens'', JInt (MaxTokens req)),
          (''temperature'', JFloat (Temperature req)),
          (''stream'', JBool (Stream req))] in
       case Marshal wd requestBody of
         Inl err \<Rightarrow> (w, [], Return (Some (''failed to marshal request: '' @ err)))
       | Inr bodyBytes \<Rightarrow>
        (case http_NewRequest ''POST'' TogetherAPIURL bodyBytes of
           Inl err \<Rightarrow> (w, [], Return (Some (''failed to create request: '' @ err)))
         | Inr httpReq \<Rightarrow>
          (let httpReq = ReqHeader_Set httpReq ''Authorization'' (''Bearer '' @ apiKey);
               httpReq = ReqHeader_Set httpReq ''Content-Type'' ''application/json'' in
           case Do wd httpReq of
             Inl err \<Rightarrow> (w, [httpReq], Return (Some (''request failed: '' @ err)))
           | Inr resp \<Rightarrow>
              if Stream req then
                (let w = Header_Set w ''Content-Type'' ''text/event-stream'';
                     w = Header_Set w ''Cache-Control'' ''no-cache'';
                     w = Header_Set w ''Connection'' ''keep-alive'';
                     decoder = NewDecoder wd (RespBody resp);
                     flusher = implements_Flusher w in
                 case relay_loop flusher decoder w of
                   (w, Panic p) \<Rightarrow> (w, [httpReq], Panic p)
                 | (w, Return u) \<Rightarrow> (w, [httpReq], Return None))
              else
                (case DecodeResult wd (RespBody resp) of
                   Inl err \<Rightarrow>
                     (w, [httpReq], Return (Some (''failed to decode response: '' @ err)))
                 | Inr result \<Rightarrow>
                     if length (ResultChoices result) = 0 then
                       (w, [httpReq], Return (Some ''no choices returned''))
                     else
                       (let respJSON = \<lparr>RespModel = Model req,
                                          Response = Text (ResultChoices result ! 0),
                                          CreatedAt = ''''\<rparr> in
                        case Encoder_Encode w respJSON of
                          (w, err) \<Rightarrow> (w, [httpReq], Return err)))))))"

text \<open>
  The defaults of lines 44-52, applied in the order of the source.
\<close>

definition apply_defaults :: "GenerationRequest \<Rightarrow> GenerationRequest" where
  "apply_defaults req =
    (let req = (if Model req = '''' then req\<lparr>Model := ''meta-llama/Llama-3-8b-chat-hf''\<rparr> else req);
         req = (if MaxTokens req = 0 then req\<lparr>MaxTokens := 512\<rparr> else req);
         req = (if Temperature req = 0 then req\<lparr>Temperature := 0.1\<rparr> else req)
     in req)"

text \<open>
  What one run of the handler leaves behind: the writer, the upstream requests issued,
  and whether the handler returned or panicked.
\<close>

record run =
  rw :: ResponseWriter
  sent :: "client_request list"
  fin :: "unit outcome"

text \<open>\<^verbatim>\<open>generateHandler\<close> (lines 30-58).\<close>

definition generateHandler :: "world \<Rightarrow> ResponseWriter \<Rightarrow> Request \<Rightarrow> run" where
  "generateHandler wd w r =
    (let w = Header_Set w ''Access-Control-Allow-Origin'' ''*'' in
     if Method r \<noteq> ''POST'' then
       \<lparr>rw = http_Error w ''Method not allowed'' 405, sent = [], fin = Return ()\<rparr>
     else
       case DecodeRequest wd (Body r) of
         Inl err \<Rightarrow> \<lparr>rw = http_Error w err 400, sent = [], fin = Return ()\<rparr>
       | Inr req \<Rightarrow>
          (let req = apply_defaults req in
           case queryExternalAPI wd req w of
             (w, issued, Panic p) \<Rightarrow> \<lparr>rw = w, sent = issued, fin = Panic p\<rparr>
           | (w, issued, Return None) \<Rightarrow> \<lparr>rw = w, sent = issued, fin = Return ()\<rparr>
           | (w, issued, Return (Some err)) \<Rightarrow>
               \<lparr>rw = http_Error w err 500, sent = issued, fin = Return ()\<rparr>))"

subsection \<open>The claims' vocabulary\<close>

text \<open>
  The request the Upstream Client is specified to send (spec 4.2 and 6): the map of
  the five fields, and a POST to the fixed endpoint with bearer authorization and JSON
  content type.
\<close>

definition request_map :: "GenerationRequest \<Rightarrow> (string \<times> json_value) list" where
  "request_map req =
     [(''model'', JString (Model req)),
      (''prompt'', JString (Prompt req)),
      (''max_tokens'', JInt (MaxTokens req)),
      (''temperature'', JFloat (Temperature req)),
      (''stream'', JBool (Stream req))]"

definition upstream_request :: "string \<Rightarrow> string \<Rightarrow> client_request" where
  "upstream_request apiKey bodyBytes =
     \<lparr>ReqMethod = ''POST'', ReqURL = TogetherAPIURL,
      ReqHeader = [(''Authorization'', ''Bearer '' @ apiKey),
                   (''Content-Type'', ''application/json'')],
      ReqBody = bodyBytes\<rparr>"

text \<open>
  The streaming claims speak of the chunks decoded before the first failure, of the
  incremental text of a chunk's first choice, and of the non-empty ones among these:
  the fragments. A fragment is relayed as one write followed by one flush.
\<close>

fun decoded_prefix :: "'a decode_step list \<Rightarrow> 'a list" where
  "decoded_prefix [] = []"
| "decoded_prefix (DecodeError e # d) = []"
| "decoded_prefix (Decoded c # d) = c # decoded_prefix d"

definition first_content :: "chunk \<Rightarrow> string" where
  "first_content c = (case Choices c of [] \<Rightarrow> '''' | ch # others \<Rightarrow> Content (Delta ch))"

definition fragments :: "chunk decode_step list \<Rightarrow> string list" where
  "fragments d = filter (\<lambda>s. s \<noteq> '''') (map first_content (decoded_prefix d))"

definition flushed_writes :: "string list \<Rightarrow> call list" where
  "flushed_writes fs = concat (map (\<lambda>f. [Write f, Flush]) fs)"

definition cors_header :: call where
  "cors_header = HeaderSet ''Access-Control-Allow-Origin'' ''*''"

definition stream_headers :: "call list" where
  "stream_headers =
     [HeaderSet ''Content-Type'' ''text/event-stream'',
      HeaderSet ''Cache-Control'' ''no-cache'',
      HeaderSet ''Connection'' ''keep-alive'']"

text \<open>
  A chunk with every choice but the first removed, for the claim that the other
  choices play no part.
\<close>

fun first_choice_only :: "chunk decode_step \<Rightarrow> chunk decode_step" where
  "first_choice_only (Decoded c) = Decoded (c\<lparr>Choices := take 1 (Choices c)\<rparr>)"
| "first_choice_only (DecodeError e) = DecodeError e"

text \<open>
  A stream cut just before its first chunk that fails to decode, for the claim that
  this chunk and what follows it play no part.
\<close>

fun until_error :: "'a decode_step list \<Rightarrow> 'a decode_step list" where
  "until_error [] = []"
| "until_error (DecodeError e # d) = []"
| "until_error (Decoded c # d) = Decoded c # until_error d"

text \<open>
  The two output forms of the specification's invariant, read off the calls that put
  something on the wire (every call but a header assignment): a single encoded
  \<^verbatim>\<open>GenerationResponse\<close>, or a raw streamed byte sequence, which is at least
  one write, under the event-stream content type, with nothing but raw writes and
  flushes. The handler reports an error through \<^verbatim>\<open>http.Error\<close> only, which is
  its only way to call \<^verbatim>\<open>WriteHeader\<close>.
\<close>

fun is_header_call :: "call \<Rightarrow> bool" where
  "is_header_call (HeaderSet k v) = True"
| "is_header_call c = False"

fun is_raw :: "call \<Rightarrow> bool" where
  "is_raw (Write s) = True"
| "is_raw Flush = True"
| "is_raw c = False"

fun is_WriteHeader :: "call \<Rightarrow> bool" where
  "is_WriteHeader (WriteHeader c) = True"
| "is_WriteHeader c = False"

definition output_calls :: "ResponseWriter \<Rightarrow> call list" where
  "output_calls w = filter (\<lambda>c. \<not> is_header_call c) (calls w)"

definition encoded_form :: "ResponseWriter \<Rightarrow> bool" where
  "encoded_form w = (case output_calls w of [Encode v] \<Rightarrow> True | _ \<Rightarrow> False)"

definition streamed_form :: "ResponseWriter \<Rightarrow> bool" where
  "streamed_form w =
     (header_of w ''Content-Type'' = Some ''text/event-stream''
      \<and> output_calls w \<noteq> [] \<and> list_all is_raw (output_calls w))"

definition error_reported :: "ResponseWriter \<Rightarrow> bool" where
  "error_reported w = list_ex is_WriteHeader (calls w)"

text \<open>An upstream whose every response has its status code replaced by \<open>code\<close>.\<close>

definition with_status :: "int \<Rightarrow> world \<Rightarrow> world" where
  "with_status code wd =
     wd\<lparr>Do := \<lambda>rq. (case Do wd rq of Inl err \<Rightarrow> Inl err
                                    | Inr resp \<Rightarrow> Inr (resp\<lparr>StatusCode := code\<rparr>))\<rparr>"

subsection \<open>Concrete inputs\<close>

text \<open>
  Worlds for the examples of the specification: the credential \<open>key\<close>, an inbound
  body that decodes to \<open>req\<close>, and an upstream that answers with status \<open>code\<close> and
  body \<open>body\<close>, which decodes to \<open>res\<close> as one document and to \<open>steps\<close> as a
  stream. The bodies below are JSON texts, each paired with what
  \<^verbatim>\<open>encoding/json\<close> decodes it to. \<open>plain_quote\<close> is the JSON string literal
  of a string that has nothing to escape.
\<close>

definition plain_quote :: "string \<Rightarrow> string" where
  \<open>plain_quote s = ''"'' @ s @ ''"''\<close>

definition demo_world ::
  "string \<Rightarrow> GenerationRequest \<Rightarrow> int \<Rightarrow> string \<Rightarrow> string + result \<Rightarrow> chunk decode_step list \<Rightarrow> world" where
  "demo_world key req code body res steps =
     \<lparr>Getenv = (\<lambda>name. if name = ''TOGETHER_API_KEY'' then key else ''''),
      Do = (\<lambda>rq. Inr \<lparr>StatusCode = code, RespBody = body\<rparr>),
      Marshal = (\<lambda>m. Inr ''request bytes''),
      DecodeRequest = (\<lambda>b. Inr req),
      DecodeResult = (\<lambda>b. if b = body then res else Inl ''unexpected body''),
      NewDecoder = (\<lambda>b. if b = body then steps else [])\<rparr>"

definition demo_request :: "bool \<Rightarrow> GenerationRequest" where
  "demo_request stream =
     \<lparr>Model = ''m'', Prompt = ''Say hello'', Stream = stream, MaxTokens = 0, Temperature = 0\<rparr>"

definition demo_post :: "bool \<Rightarrow> Request" where
  \<open>demo_post stream =
     \<lparr>Method = ''POST'',
      Body = (if stream then ''{"model":"m","prompt":"Say hello","stream":true}''
              else ''{"model":"m","prompt":"Say hello"}'')\<rparr>\<close>

definition text_chunk :: "string \<Rightarrow> chunk" where
  "text_chunk s = \<lparr>Choices = [\<lparr>Delta = \<lparr>Content = s\<rparr>\<rparr>]\<rparr>"

text \<open>The two chunks of the specification's streaming example.\<close>

definition hi_there_body :: string where
  \<open>hi_there_body =
     ''{"choices":[{"delta":{"content":"Hi"}}]}{"choices":[{"delta":{"content":" there"}}]}''\<close>

definition hi_there :: "chunk decode_step list" where
  "hi_there = [Decoded (text_chunk ''Hi''), Decoded (text_chunk '' there'')]"

definition hi_there_world :: "string \<Rightarrow> int \<Rightarrow> world" where
  "hi_there_world key code =
     demo_world key (demo_request True) code hi_there_body
       (Inr \<lparr>ResultChoices = [\<lparr>Text = ''''\<rparr>]\<rparr>) hi_there"

text \<open>The same two chunks with a malformed one between them.\<close>

definition cut_short_body :: string where
  \<open>cut_short_body =
     ''{"choices":[{"delta":{"content":"Hi"}}]}garbage{"choices":[{"delta":{"content":" there"}}]}''\<close>

definition cut_short :: "chunk decode_step list" where
  "cut_short =
     [Decoded (text_chunk ''Hi''),
      DecodeError ''invalid character 'g' looking for beginning of value'',
      Decoded (text_chunk '' there'')]"

definition cut_short_world :: "int \<Rightarrow> world" where
  "cut_short_world code =
     demo_world ''k'' (demo_request True) code cut_short_body
       (Inr \<lparr>ResultChoices = [\<lparr>Text = ''''\<rparr>]\<rparr>) cut_short"

text \<open>A stream of one chunk that decodes and has no choices.\<close>

definition no_text_body :: string where
  \<open>no_text_body = ''{"choices":[]}''\<close>

definition no_text_world :: "bool \<Rightarrow> world" where
  "no_text_world stream =
     demo_world ''k'' (demo_request stream) 200 no_text_body
       (Inr \<lparr>ResultChoices = []\<rparr>) [Decoded \<lparr>Choices = []\<rparr>]"

text \<open>The non-streaming example of the specification, answered with status \<open>code\<close>.\<close>

definition hello_body :: string where
  \<open>hello_body = ''{"choices":[{"text":"hello"}]}''\<close>

definition hello_result :: result where
  "hello_result = \<lparr>ResultChoices = [\<lparr>Text = ''hello''\<rparr>]\<rparr>"

definition hello_world :: "string \<Rightarrow> int \<Rightarrow> world" where
  "hello_world key code =
     demo_world key (demo_request False) code hello_body (Inr hello_result)
       [Decoded (text_chunk '''')]"

text \<open>An inbound request that names no model, token limit or temperature.\<close>

definition bare_request :: GenerationRequest where
  "bare_request =
     \<lparr>Model = '''', Prompt = ''Say hello'', Stream = False, MaxTokens = 0, Temperature = 0\<rparr>"

definition bare_post :: Request where
  \<open>bare_post = \<lparr>Method = ''POST'', Body = ''{"prompt":"Say hello"}''\<rparr>\<close>

definition bare_world :: world where
  "bare_world =
     demo_world ''k'' bare_request 200 hello_body (Inr hello_result) [Decoded (text_chunk '''')]"

text \<open>A chunk with two choices.\<close>

definition two_choices :: chunk where
  "two_choices =
     \<lparr>Choices = [\<lparr>Delta = \<lparr>Content = ''first''\<rparr>\<rparr>, \<lparr>Delta = \<lparr>Content = ''second''\<rparr>\<rparr>]\<rparr>"

text \<open>An upstream that answers \<open>code\<close> with a body that is not JSON.\<close>

definition refused :: string where
  "refused = ''invalid character 'u' looking for beginning of value''"

definition refused_world :: "bool \<Rightarrow> int \<Rightarrow> world" where
  "refused_world stream code =
     demo_world ''k'' (demo_request stream) code ''upstream unavailable'' (Inl refused)
       [DecodeError refused]"

section \<open>Properties\<close>

subsection \<open>Shared lemmas\<close>

lemma called_as_update: "called w c = w\<lparr>calls := calls w @ [c]\<rparr>"
  by (simp add: called_def)

lemma fragments_Nil: "fragments [] = []"
  by (simp add: fragments_def)

lemma fragments_DecodeError: "fragments (DecodeError e # d) = []"
  by (simp add: fragments_def)

lemma fragments_Decoded:
  "fragments (Decoded c # d) =
     (if first_content c = '''' then fragments d else first_content c # fragments d)"
  by (simp add: fragments_def)

lemma flushed_writes_Nil: "flushed_writes [] = []"
  by (simp add: flushed_writes_def)

lemma flushed_writes_Cons: "flushed_writes (f # fs) = Write f # Flush # flushed_writes fs"
  by (simp add: flushed_writes_def)

lemma relay_loop_step:
  "relay_loop fl (Decoded c # d) w =
     (if first_content c = '''' then relay_loop fl d w
      else if fl then relay_loop fl d (called (called w (Write (first_content c))) Flush)
      else (called w (Write (first_content c)), Panic nil_dereference))"
  by (cases "Choices c") (simp_all add: first_content_def Let_def Fprintf_def Flusher_Flush_def)

text \<open>The loop in closed form: with a flusher, and without one.\<close>

lemma relay_loop_closed:
  "relay_loop fl d w =
     (if fl \<or> fragments d = []
      then (w\<lparr>calls := calls w @ flushed_writes (fragments d)\<rparr>, Return ())
      else (w\<lparr>calls := calls w @ [Write (hd (fragments d))]\<rparr>, Panic nil_dereference))"
proof (induction d arbitrary: w)
  case Nil
  show ?case by (simp add: fragments_Nil flushed_writes_Nil)
next
  case (Cons s d)
  show ?case
  proof (cases s)
    case (DecodeError e)
    then show ?thesis by (simp add: fragments_DecodeError flushed_writes_Nil)
  next
    case (Decoded c)
    show ?thesis
      unfolding Decoded relay_loop_step fragments_Decoded Cons.IH
      by (simp add: called_as_update flushed_writes_Cons)
  qed
qed

text \<open>The outbound request the code builds is the specified one.\<close>

lemma built_request:
  "http_NewRequest ''POST'' TogetherAPIURL bytes = Inr rq \<Longrightarrow>
   ReqHeader_Set (ReqHeader_Set rq ''Authorization'' (''Bearer '' @ key))
     ''Content-Type'' ''application/json'' = upstream_request key bytes"
  by (auto simp add: http_NewRequest_def ReqHeader_Set_def upstream_request_def)

lemma queryExternalAPI_no_key:
  "Getenv wd ''TOGETHER_API_KEY'' = '''' \<Longrightarrow>
   queryExternalAPI wd req w =
     (w, [], Return (Some ''API key not set in TOGETHER_API_KEY environment variable''))"
  by (simp add: queryExternalAPI_def)

lemma queryExternalAPI_replied:
  assumes "Getenv wd ''TOGETHER_API_KEY'' = key" and "key \<noteq> ''''"
    and "Marshal wd (request_map req) = Inr bytes"
    and "Do wd (upstream_request key bytes) = Inr resp"
  shows "queryExternalAPI wd req w =
    (if Stream req then
       (case relay_loop (implements_Flusher w) (NewDecoder wd (RespBody resp))
               (w\<lparr>calls := calls w @ stream_headers\<rparr>) of
          (w', Panic p) \<Rightarrow> (w', [upstream_request key bytes], Panic p)
        | (w', Return u) \<Rightarrow> (w', [upstream_request key bytes], Return None))
     else
       (case DecodeResult wd (RespBody resp) of
          Inl err \<Rightarrow> (w, [upstream_request key bytes],
                      Return (Some (''failed to decode response: '' @ err)))
        | Inr result \<Rightarrow>
           (case ResultChoices result of
              [] \<Rightarrow> (w, [upstream_request key bytes], Return (Some ''no choices returned''))
            | c # cs \<Rightarrow>
               (called w (Encode \<lparr>RespModel = Model req, Response = Text c, CreatedAt = ''''\<rparr>),
                [upstream_request key bytes], Return (write_error w)))))"
proof -
  have hs: "Header_Set (Header_Set (Header_Set w ''Content-Type'' ''text/event-stream'')
              ''Cache-Control'' ''no-cache'') ''Connection'' ''keep-alive''
            = w\<lparr>calls := calls w @ stream_headers\<rparr>"
    by (simp add: Header_Set_def called_def stream_headers_def)
  have m: "Marshal wd
              [(''model'', JString (Model req)),
               (''prompt'', JString (Prompt req)),
               (''max_tokens'', JInt (MaxTokens req)),
               (''temperature'', JFloat (Temperature req)),
               (''stream'', JBool (Stream req))] = Inr bytes"
    using assms(3) by (simp add: request_map_def)
  show ?thesis
    unfolding queryExternalAPI_def
    using m assms(1,2,4)
    by (simp add: Let_def http_NewRequest_def ReqHeader_Set_def upstream_request_def hs
        Encoder_Encode_def split: sum.splits list.splits del: relay_loop.simps)
qed

lemma queryExternalAPI_stream:
  assumes "Getenv wd ''TOGETHER_API_KEY'' = key" and "key \<noteq> ''''"
    and "Marshal wd (request_map req) = Inr bytes"
    and "Do wd (upstream_request key bytes) = Inr resp"
    and "Stream req"
  shows "queryExternalAPI wd req w =
    (if implements_Flusher w \<or> fragments (NewDecoder wd (RespBody resp)) = []
     then (w\<lparr>calls := calls w @ stream_headers
                @ flushed_writes (fragments (NewDecoder wd (RespBody resp)))\<rparr>,
           [upstream_request key bytes], Return None)
     else (w\<lparr>calls := calls w @ stream_headers
                @ [Write (hd (fragments (NewDecoder wd (RespBody resp))))]\<rparr>,
           [upstream_request key bytes], Panic nil_dereference))"
  unfolding queryExternalAPI_replied [OF assms(1-4)] relay_loop_closed
  using assms(5) by simp

text \<open>The handler on a POST whose body decodes.\<close>

lemma generateHandler_decoded:
  assumes "Method r = ''POST''" and "DecodeRequest wd (Body r) = Inr req"
  shows "generateHandler wd w r =
    (case queryExternalAPI wd (apply_defaults req) (called w cors_header) of
       (w', issued, Panic p) \<Rightarrow> \<lparr>rw = w', sent = issued, fin = Panic p\<rparr>
     | (w', issued, Return None) \<Rightarrow> \<lparr>rw = w', sent = issued, fin = Return ()\<rparr>
     | (w', issued, Return (Some err)) \<Rightarrow>
         \<lparr>rw = http_Error w' err 500, sent = issued, fin = Return ()\<rparr>)"
  using assms by (simp add: generateHandler_def Header_Set_def cors_header_def)

lemma apply_defaults_fields:
  "Model (apply_defaults req) =
     (if Model req = '''' then ''meta-llama/Llama-3-8b-chat-hf'' else Model req)"
  "MaxTokens (apply_defaults req) = (if MaxTokens req = 0 then 512 else MaxTokens req)"
  "Temperature (apply_defaults req) = (if Temperature req = 0 then 0.1 else Temperature req)"
  "Prompt (apply_defaults req) = Prompt req"
  "Stream (apply_defaults req) = Stream req"
  by (simp_all add: apply_defaults_def)

lemma body_of_flushed_writes:
  "concat (map (body_bytes q) (flushed_writes fs)) = concat fs"
  by (induction fs) (simp_all add: flushed_writes_Nil flushed_writes_Cons)

text \<open>
  The whole run of the handler, on a fresh writer, once the upstream has replied: in
  streaming mode and in non-streaming mode.
\<close>

lemma generateHandler_stream:
  assumes "Method r = ''POST''" and "DecodeRequest wd (Body r) = Inr req" and "Stream req"
    and "Getenv wd ''TOGETHER_API_KEY'' = key" and "key \<noteq> ''''"
    and "Marshal wd (request_map (apply_defaults req)) = Inr bytes"
    and "Do wd (upstream_request key bytes) = Inr resp"
  shows "generateHandler wd (NewResponseWriter fl we) r =
    (if fl \<or> fragments (NewDecoder wd (RespBody resp)) = []
     then \<lparr>rw = \<lparr>implements_Flusher = fl, write_error = we,
                  calls = cors_header # stream_headers
                    @ flushed_writes (fragments (NewDecoder wd (RespBody resp)))\<rparr>,
           sent = [upstream_request key bytes], fin = Return ()\<rparr>
     else \<lparr>rw = \<lparr>implements_Flusher = fl, write_error = we,
                  calls = cors_header # stream_headers
                    @ [Write (hd (fragments (NewDecoder wd (RespBody resp))))]\<rparr>,
           sent = [upstream_request key bytes], fin = Panic nil_dereference\<rparr>)"
proof -
  have s: "Stream (apply_defaults req)"
    using assms(3) by (simp add: apply_defaults_fields)
  show ?thesis
    unfolding generateHandler_decoded [OF assms(1,2)]
      queryExternalAPI_stream [OF assms(4,5,6,7) s]
    by (simp add: NewResponseWriter_def called_def)
qed

lemma generateHandler_document:
  assumes "Method r = ''POST''" and "DecodeRequest wd (Body r) = Inr req" and "\<not> Stream req"
    and "Getenv wd ''TOGETHER_API_KEY'' = key" and "key \<noteq> ''''"
    and "Marshal wd (request_map (apply_defaults req)) = Inr bytes"
    and "Do wd (upstream_request key bytes) = Inr resp"
  shows "generateHandler wd (NewResponseWriter fl we) r =
    (case DecodeResult wd (RespBody resp) of
       Inl err \<Rightarrow>
         \<lparr>rw = http_Error \<lparr>implements_Flusher = fl, write_error = we, calls = [cors_header]\<rparr>
                 (''failed to decode response: '' @ err) 500,
          sent = [upstream_request key bytes], fin = Return ()\<rparr>
     | Inr result \<Rightarrow>
        (case ResultChoices result of
           [] \<Rightarrow>
             \<lparr>rw = http_Error \<lparr>implements_Flusher = fl, write_error = we, calls = [cors_header]\<rparr>
                     ''no choices returned'' 500,
              sent = [upstream_request key bytes], fin = Return ()\<rparr>
         | c # cs \<Rightarrow>
            (case we of
               None \<Rightarrow>
                 \<lparr>rw = \<lparr>implements_Flusher = fl, write_error = we,
                         calls = [cors_header,
                                  Encode \<lparr>RespModel = Model (apply_defaults req),
                                          Response = Text c, CreatedAt = ''''\<rparr>]\<rparr>,
                  sent = [upstream_request key bytes], fin = Return ()\<rparr>
             | Some e \<Rightarrow>
                 \<lparr>rw = http_Error
                         \<lparr>implements_Flusher = fl, write_error = we,
                          calls = [cors_header,
                                   Encode \<lparr>RespModel = Model (apply_defaults req),
                                           Response = Text c, CreatedAt = ''''\<rparr>]\<rparr>
                         e 500,
                  sent = [upstream_request key bytes], fin = Return ()\<rparr>)))"
proof -
  have s: "\<not> Stream (apply_defaults req)"
    using assms(3) by (simp add: apply_defaults_fields)
  show ?thesis
    unfolding generateHandler_decoded [OF assms(1,2)]
      queryExternalAPI_replied [OF assms(4,5,6,7)]
    using s by (simp add: NewResponseWriter_def called_def
        split: sum.splits list.splits option.splits)
qed

lemma sent_header_flushed_writes:
  "sent_header (flushed_writes fs @ cs) h = (if fs = [] then sent_header cs h else h)"
  by (cases fs) (simp_all add: flushed_writes_Nil flushed_writes_Cons)

lemma committed_flushed_writes:
  "committed (flushed_writes fs @ cs) = (if fs = [] then committed cs else Some 200)"
  by (cases fs) (simp_all add: flushed_writes_Nil flushed_writes_Cons)

lemma body_stream_calls:
  "concat (map (body_bytes q) (cors_header # stream_headers @ flushed_writes fs)) = concat fs"
  by (simp add: cors_header_def stream_headers_def body_of_flushed_writes)

lemma committed_stream_calls:
  "committed (cors_header # stream_headers @ flushed_writes fs) =
     (if fs = [] then None else Some 200)"
  by (simp add: cors_header_def stream_headers_def
      committed_flushed_writes [where cs = "[]", simplified])

lemma header_stream_calls:
  "sent_header (cors_header # stream_headers @ flushed_writes fs) Map.empty =
     [''Access-Control-Allow-Origin'' \<mapsto> ''*'', ''Content-Type'' \<mapsto> ''text/event-stream'',
      ''Cache-Control'' \<mapsto> ''no-cache'', ''Connection'' \<mapsto> ''keep-alive'']"
  by (simp add: cors_header_def stream_headers_def
      sent_header_flushed_writes [where cs = "[]", simplified])

lemma fragments_nonempty_iff:
  "(\<exists>c \<in> set (decoded_prefix d). first_content c \<noteq> '''') \<longleftrightarrow> fragments d \<noteq> []"
  by (auto simp add: fragments_def filter_empty_conv)

lemma decoded_prefix_until_error:
  "decoded_prefix (map Decoded pre @ DecodeError e # rest) = pre"
  by (induction pre) simp_all

text \<open>
  The calls of a streaming run that does not meet the nil flusher: the CORS header, the
  three stream headers, and one write and one flush for each fragment.
\<close>

lemma streaming_run:
  assumes "Method r = ''POST''" and "DecodeRequest wd (Body r) = Inr req" and "Stream req"
    and "Getenv wd ''TOGETHER_API_KEY'' = key" and "key \<noteq> ''''"
    and "Marshal wd (request_map (apply_defaults req)) = Inr bytes"
    and "Do wd (upstream_request key bytes) = Inr resp"
    and "fl \<or> fragments (NewDecoder wd (RespBody resp)) = []"
  shows "calls (rw (generateHandler wd (NewResponseWriter fl we) r)) =
           cors_header # stream_headers
             @ flushed_writes (fragments (NewDecoder wd (RespBody resp)))"
    and "body_of q (rw (generateHandler wd (NewResponseWriter fl we) r)) =
           concat (fragments (NewDecoder wd (RespBody resp)))"
    and "status_of (rw (generateHandler wd (NewResponseWriter fl we) r)) = 200"
    and "header_of (rw (generateHandler wd (NewResponseWriter fl we) r)) =
           [''Access-Control-Allow-Origin'' \<mapsto> ''*'',
            ''Content-Type'' \<mapsto> ''text/event-stream'',
            ''Cache-Control'' \<mapsto> ''no-cache'', ''Connection'' \<mapsto> ''keep-alive'']"
    and "fin (generateHandler wd (NewResponseWriter fl we) r) = Return ()"
    and "sent (generateHandler wd (NewResponseWriter fl we) r) = [upstream_request key bytes]"
proof -
  have run: "generateHandler wd (NewResponseWriter fl we) r =
      \<lparr>rw = \<lparr>implements_Flusher = fl, write_error = we,
                 calls = cors_header # stream_headers
                   @ flushed_writes (fragments (NewDecoder wd (RespBody resp)))\<rparr>,
       sent = [upstream_request key bytes], fin = Return ()\<rparr>"
    using generateHandler_stream [OF assms(1-7), of fl we] assms(8)
    by (simp only: simp_thms if_True)
  show c: "calls (rw (generateHandler wd (NewResponseWriter fl we) r)) =
           cors_header # stream_headers
             @ flushed_writes (fragments (NewDecoder wd (RespBody resp)))"
    by (simp add: run)
  show "body_of q (rw (generateHandler wd (NewResponseWriter fl we) r)) =
           concat (fragments (NewDecoder wd (RespBody resp)))"
    unfolding body_of_def c by (rule body_stream_calls)
  show "status_of (rw (generateHandler wd (NewResponseWriter fl we) r)) = 200"
    unfolding status_of_def c committed_stream_calls by simp
  show "header_of (rw (generateHandler wd (NewResponseWriter fl we) r)) =
           [''Access-Control-Allow-Origin'' \<mapsto> ''*'',
            ''Content-Type'' \<mapsto> ''text/event-stream'',
            ''Cache-Control'' \<mapsto> ''no-cache'', ''Connection'' \<mapsto> ''keep-alive'']"
    unfolding header_of_def c by (rule header_stream_calls)
  show "fin (generateHandler wd (NewResponseWriter fl we) r) = Return ()"
    by (simp add: run)
  show "sent (generateHandler wd (NewResponseWriter fl we) r) = [upstream_request key bytes]"
    by (simp add: run)
qed

text \<open>Evaluating the handler on the concrete worlds.\<close>

lemmas run_defs =
  generateHandler_def queryExternalAPI_def demo_world_def demo_request_def demo_post_def
  apply_defaults_def http_NewRequest_def ReqHeader_Set_def Header_Set_def Fprintf_def
  Flusher_Flush_def Encoder_Encode_def http_Error_def called_def NewResponseWriter_def Let_def

text \<open>A decoder whose change does not change the loop does not change the handler.\<close>

lemma generateHandler_decoder_cong:
  assumes "\<And>b fl v. relay_loop fl (f (NewDecoder wd b)) v = relay_loop fl (NewDecoder wd b) v"
  shows "generateHandler (wd\<lparr>NewDecoder := \<lambda>b. f (NewDecoder wd b)\<rparr>) w r =
           generateHandler wd w r"
proof -
  have q: "queryExternalAPI (wd\<lparr>NewDecoder := \<lambda>b. f (NewDecoder wd b)\<rparr>) rq v
             = queryExternalAPI wd rq v" for rq v
    unfolding queryExternalAPI_def
    by (simp add: Let_def assms del: relay_loop.simps cong: sum.case_cong if_cong)
  show ?thesis
    unfolding generateHandler_def by (simp add: q Let_def cong: sum.case_cong if_cong)
qed

subsection \<open>Streaming mode\<close>


text \<open>
  Claim C2. In streaming mode, a chunk that fails to decode ends the relay silently.
  At such a chunk the loop returns, whatever follows it, leaving the writer as it is; a
  run of the handler is the run on the stream cut just before its first malformed
  chunk, for every writer. So when the upstream stream holds a malformed chunk (after
  the chunks \<open>pre\<close>, before \<open>rest\<close>) and the loop reaches it (the fragments before it
  were flushed, or there are none), the fragments of \<open>pre\<close> are written and flushed,
  nothing of \<open>rest\<close> is, \<^verbatim>\<open>queryExternalAPI\<close> returns nil, the status stays 200
  with no error body appended, and the handler returns.
\<close>

theorem malformed_chunk_ends_stream:
  assumes "Method r = ''POST''" and "DecodeRequest wd (Body r) = Inr req" and "Stream req"
    and "Getenv wd ''TOGETHER_API_KEY'' = key" and "key \<noteq> ''''"
    and "Marshal wd (request_map (apply_defaults req)) = Inr bytes"
    and "Do wd (upstream_request key bytes) = Inr resp"
    and "NewDecoder wd (RespBody resp) = map Decoded pre @ DecodeError err # rest"
    and "fl \<or> filter (\<lambda>s. s \<noteq> '''') (map first_content pre) = []"
  shows "relay_loop any_fl (DecodeError err # rest) any_w = (any_w, Return ())
       \<and> generateHandler (wd\<lparr>NewDecoder := \<lambda>b. until_error (NewDecoder wd b)\<rparr>) any_w any_r =
           generateHandler wd any_w any_r
       \<and> calls (rw (generateHandler wd (NewResponseWriter fl we) r)) =
           cors_header # stream_headers
             @ flushed_writes (filter (\<lambda>s. s \<noteq> '''') (map first_content pre))
       \<and> body_of q (rw (generateHandler wd (NewResponseWriter fl we) r)) =
           concat (filter (\<lambda>s. s \<noteq> '''') (map first_content pre))
       \<and> status_of (rw (generateHandler wd (NewResponseWriter fl we) r)) = 200
       \<and> fin (generateHandler wd (NewResponseWriter fl we) r) = Return ()
       \<and> snd (snd (queryExternalAPI wd (apply_defaults req)
                      (called (NewResponseWriter fl we) cors_header))) = Return None"
proof -
  have f: "fragments (NewDecoder wd (RespBody resp)) =
             filter (\<lambda>s. s \<noteq> '''') (map first_content pre)"
    by (simp add: assms(8) fragments_def decoded_prefix_until_error)
  have ok: "fl \<or> fragments (NewDecoder wd (RespBody resp)) = []"
    using assms(9) by (simp only: f)
  have s: "Stream (apply_defaults req)"
    using assms(3) by (simp add: apply_defaults_fields)
  have dp: "decoded_prefix (until_error d) = decoded_prefix d" for d :: "chunk decode_step list"
  proof (induction d)
    case Nil
    show ?case by simp
  next
    case (Cons x d)
    then show ?case by (cases x) simp_all
  qed
  have u: "relay_loop b (until_error d) v = relay_loop b d v" for b d v
    by (simp only: relay_loop_closed fragments_def dp)
  have a: "relay_loop any_fl (DecodeError err # rest) any_w = (any_w, Return ())"
    by simp
  have g: "generateHandler (wd\<lparr>NewDecoder := \<lambda>b. until_error (NewDecoder wd b)\<rparr>) any_w any_r =
             generateHandler wd any_w any_r"
    by (rule generateHandler_decoder_cong) (rule u)
  note run = streaming_run [OF assms(1-7) ok, where we = we, unfolded f]
  have n: "snd (snd (queryExternalAPI wd (apply_defaults req)
                      (called (NewResponseWriter fl we) cors_header))) = Return None"
    unfolding queryExternalAPI_stream [OF assms(4,5,6,7) s]
    using ok by (simp add: called_def NewResponseWriter_def)
  from a g run(1) run(2) [where q = q] run(3) run(5) n show ?thesis by (intro conjI)
qed

theorem malformed_chunk_ends_stream_witness:
  "calls (rw (generateHandler (cut_short_world 200) (NewResponseWriter True None) (demo_post True))) =
     [HeaderSet ''Access-Control-Allow-Origin'' ''*'',
      HeaderSet ''Content-Type'' ''text/event-stream'',
      HeaderSet ''Cache-Control'' ''no-cache'',
      HeaderSet ''Connection'' ''keep-alive'',
      Write ''Hi'', Flush]
   \<and> body_of plain_quote (rw (generateHandler (cut_short_world 200) (NewResponseWriter True None)
       (demo_post True))) = ''Hi''
   \<and> status_of (rw (generateHandler (cut_short_world 200) (NewResponseWriter True None)
       (demo_post True))) = 200
   \<and> fin (generateHandler (cut_short_world 200) (NewResponseWriter True None) (demo_post True)) =
       Return ()"
  using malformed_chunk_ends_stream
    [where r = "demo_post True" and wd = "cut_short_world 200"
       and req = "demo_request True" and key = "''k''" and bytes = "''request bytes''"
       and resp = "\<lparr>StatusCode = 200, RespBody = cut_short_body\<rparr>"
       and pre = "[text_chunk ''Hi'']"
       and err = "''invalid character 'g' looking for beginning of value''"
       and rest = "[Decoded (text_chunk '' there'')]" and q = plain_quote
       and fl = True and we = None and any_fl = True and any_w = "NewResponseWriter True None"
       and any_r = "demo_post True"]
  by (simp add: cut_short_world_def demo_world_def demo_request_def demo_post_def
      cut_short_def text_chunk_def first_content_def flushed_writes_def cors_header_def
      stream_headers_def)

text \<open>
  Claim C9. In streaming mode the flag of the type assertion to \<^verbatim>\<open>http.Flusher\<close> is
  discarded (\<open>relay_loop\<close> is entered with the bare result). When the writer does not
  implement \<^verbatim>\<open>http.Flusher\<close> and at least one decoded chunk carries a non-empty
  first-choice content, the handler panics with a nil dereference, right after the write
  of the first such content.
\<close>

theorem flush_on_nil_flusher_panics:
  assumes "Method r = ''POST''" and "DecodeRequest wd (Body r) = Inr req" and "Stream req"
    and "Getenv wd ''TOGETHER_API_KEY'' = key" and "key \<noteq> ''''"
    and "Marshal wd (request_map (apply_defaults req)) = Inr bytes"
    and "Do wd (upstream_request key bytes) = Inr resp"
    and "\<exists>c \<in> set (decoded_prefix (NewDecoder wd (RespBody resp))). first_content c \<noteq> ''''"
  shows "fin (generateHandler wd (NewResponseWriter False we) r) = Panic nil_dereference
       \<and> calls (rw (generateHandler wd (NewResponseWriter False we) r)) =
           cors_header # stream_headers
             @ [Write (hd (fragments (NewDecoder wd (RespBody resp))))]"
proof -
  have "fragments (NewDecoder wd (RespBody resp)) \<noteq> []"
    using assms(8) by (simp add: fragments_nonempty_iff)
  then have run: "generateHandler wd (NewResponseWriter False we) r =
      \<lparr>rw = \<lparr>implements_Flusher = False, write_error = we,
                 calls = cors_header # stream_headers
                   @ [Write (hd (fragments (NewDecoder wd (RespBody resp))))]\<rparr>,
       sent = [upstream_request key bytes], fin = Panic nil_dereference\<rparr>"
    using generateHandler_stream [OF assms(1-7), of False we]
    by (simp only: simp_thms if_False)
  show ?thesis
    by (simp add: run)
qed

theorem flush_on_nil_flusher_panics_witness:
  "fin (generateHandler (hi_there_world ''k'' 200) (NewResponseWriter False None)
       (demo_post True)) = Panic nil_dereference
   \<and> calls (rw (generateHandler (hi_there_world ''k'' 200) (NewResponseWriter False None)
       (demo_post True))) =
     [HeaderSet ''Access-Control-Allow-Origin'' ''*'',
      HeaderSet ''Content-Type'' ''text/event-stream'',
      HeaderSet ''Cache-Control'' ''no-cache'',
      HeaderSet ''Connection'' ''keep-alive'',
      Write ''Hi'']"
  using flush_on_nil_flusher_panics
    [where r = "demo_post True" and wd = "hi_there_world ''k'' 200"
       and req = "demo_request True" and key = "''k''" and bytes = "''request bytes''"
       and resp = "\<lparr>StatusCode = 200, RespBody = hi_there_body\<rparr>" and we = None]
  by (simp add: hi_there_world_def demo_world_def demo_request_def demo_post_def hi_there_def
      text_chunk_def fragments_def first_content_def cors_header_def stream_headers_def)

text \<open>
  Claim C10. Of a decoded chunk with two or more choices only the first choice is
  relayed: when the delta content of the first choice is not empty, it is what the loop
  writes and flushes (on a nil flusher it is written, and the flush panics), and when it
  is empty the loop writes nothing for the chunk; in both cases the loop goes on as it
  does on the chunk with its first choice alone, so the content of the other choices is
  neither written nor flushed. A whole run of the handler is unchanged when every chunk
  of the upstream stream loses all choices but the first.
\<close>

theorem only_first_choice_relayed:
  "relay_loop fl (Decoded \<lparr>Choices = c # others\<rparr> # d) w =
     (if Content (Delta c) = '''' then relay_loop fl d w
      else if fl then
        relay_loop fl d (called (called w (Write (Content (Delta c)))) Flush)
      else (called w (Write (Content (Delta c))), Panic nil_dereference))
   \<and> relay_loop fl (Decoded \<lparr>Choices = c # others\<rparr> # d) w =
       relay_loop fl (Decoded \<lparr>Choices = [c]\<rparr> # d) w
   \<and> relay_loop fl (map first_choice_only d) w = relay_loop fl d w
   \<and> generateHandler (wd\<lparr>NewDecoder := \<lambda>b. map first_choice_only (NewDecoder wd b)\<rparr>) w r =
       generateHandler wd w r"
proof -
  have fc: "first_content (x\<lparr>Choices := take (Suc 0) (Choices x)\<rparr>) = first_content x" for x
    by (cases "Choices x") (simp_all add: first_content_def)
  have dp: "decoded_prefix (map first_choice_only e) =
              map (\<lambda>x. x\<lparr>Choices := take 1 (Choices x)\<rparr>) (decoded_prefix e)" for e
  proof (induction e)
    case Nil
    show ?case by simp
  next
    case (Cons s e)
    then show ?case by (cases s) simp_all
  qed
  have fr: "fragments (map first_choice_only e) = fragments e" for e
    by (simp add: fragments_def dp fc comp_def)
  have rl: "relay_loop b (map first_choice_only e) v = relay_loop b e v" for b e v
    by (simp only: relay_loop_closed fr)
  have g: "generateHandler (wd\<lparr>NewDecoder := \<lambda>b. map first_choice_only (NewDecoder wd b)\<rparr>) w r
             = generateHandler wd w r"
    by (rule generateHandler_decoder_cong) (rule rl)
  have step: "relay_loop fl (Decoded \<lparr>Choices = c # others\<rparr> # d) w =
     (if Content (Delta c) = '''' then relay_loop fl d w
      else if fl then
        relay_loop fl d (called (called w (Write (Content (Delta c)))) Flush)
      else (called w (Write (Content (Delta c))), Panic nil_dereference))"
    by (simp only: relay_loop_step) (simp add: first_content_def)
  have one: "relay_loop fl (Decoded \<lparr>Choices = c # others\<rparr> # d) w =
               relay_loop fl (Decoded \<lparr>Choices = [c]\<rparr> # d) w"
    by (simp only: relay_loop_step) (simp add: first_content_def)
  from step one rl g show ?thesis by (intro conjI)
qed

theorem only_first_choice_relayed_witness:
  "calls (fst (relay_loop True [Decoded two_choices] (NewResponseWriter True None))) =
     [Write ''first'', Flush]"
  using only_first_choice_relayed
    [where fl = True and c = "\<lparr>Delta = \<lparr>Content = ''first''\<rparr>\<rparr>"
       and others = "[\<lparr>Delta = \<lparr>Content = ''second''\<rparr>\<rparr>]" and d = "[]"
       and w = "NewResponseWriter True None" and wd = "hi_there_world ''k'' 200"
       and r = "demo_post True"]
  by (simp add: two_choices_def NewResponseWriter_def Fprintf_def Flusher_Flush_def called_def)

subsection \<open>Non-streaming mode\<close>

lemma status_of_http_Error:
  "committed (calls w) = None \<Longrightarrow> status_of (http_Error w msg code) = code"
proof -
  have "committed (cs @ ds) = (case committed cs of None \<Rightarrow> committed ds | Some c \<Rightarrow> Some c)"
    for cs ds
  proof (induction cs)
    case Nil
    show ?case by simp
  next
    case (Cons a cs)
    then show ?case by (cases a) simp_all
  qed
  then show "committed (calls w) = None \<Longrightarrow> status_of (http_Error w msg code) = code"
    by (simp add: status_of_def http_Error_def called_def)
qed

lemma calls_http_Error:
  "calls (http_Error w msg code) =
     calls w @ [HeaderSet ''Content-Type'' ''text/plain; charset=utf-8'',
                HeaderSet ''X-Content-Type-Options'' ''nosniff'',
                WriteHeader code, Write (msg @ ''\<newline>'')]"
  by (simp add: http_Error_def called_def)

lemma error_reply:
  "status_of (http_Error \<lparr>implements_Flusher = fl, write_error = we, calls = [cors_header]\<rparr>
      msg code) = code
   \<and> body_of q (http_Error \<lparr>implements_Flusher = fl, write_error = we, calls = [cors_header]\<rparr>
      msg code) = msg @ ''\<newline>''"
  by (simp add: status_of_http_Error cors_header_def body_of_def calls_http_Error)

text \<open>
  Claim C4, as amended. In non-streaming mode, when the upstream body decodes to a
  non-empty list of choices, the handler makes one \<^verbatim>\<open>Encode\<close> call, on the
  \<^verbatim>\<open>GenerationResponse\<close> whose model is the defaulted requested model, whose response
  is the text of the first choice and whose \<^verbatim>\<open>created_at\<close> is empty; what it writes
  is the JSON object with the members \<^verbatim>\<open>model\<close> and \<^verbatim>\<open>response\<close> only,
  followed by the newline that \<^verbatim>\<open>Encoder.Encode\<close> ends a value with.
  \<^verbatim>\<open>queryExternalAPI\<close> returns the error of that write: when the write succeeds
  this is the whole response, with status 200; when it fails the handler goes on to call
  \<^verbatim>\<open>http.Error\<close> with the error of the write and status 500.
\<close>

theorem document_reply_encoded:
  assumes "Method r = ''POST''" and "DecodeRequest wd (Body r) = Inr req" and "\<not> Stream req"
    and "Getenv wd ''TOGETHER_API_KEY'' = key" and "key \<noteq> ''''"
    and "Marshal wd (request_map (apply_defaults req)) = Inr bytes"
    and "Do wd (upstream_request key bytes) = Inr resp"
    and "DecodeResult wd (RespBody resp) = Inr result"
    and "ResultChoices result = c # cs"
  shows \<open>calls (rw (generateHandler wd (NewResponseWriter fl we) r)) =
           [cors_header,
            Encode \<lparr>RespModel = Model (apply_defaults req), Response = Text c, CreatedAt = ''''\<rparr>]
           @ (case we of
                None \<Rightarrow> []
              | Some e \<Rightarrow>
                  [HeaderSet ''Content-Type'' ''text/plain; charset=utf-8'',
                   HeaderSet ''X-Content-Type-Options'' ''nosniff'',
                   WriteHeader 500, Write (e @ ''\<newline>'')])
       \<and> body_bytes q
            (Encode \<lparr>RespModel = Model (apply_defaults req), Response = Text c, CreatedAt = ''''\<rparr>) =
           ''{"model":'' @ q (Model (apply_defaults req)) @ '',"response":'' @ q (Text c)
             @ ''}'' @ ''\<newline>''
       \<and> (we = None \<longrightarrow>
            body_of q (rw (generateHandler wd (NewResponseWriter fl we) r)) =
              ''{"model":'' @ q (Model (apply_defaults req)) @ '',"response":'' @ q (Text c)
                @ ''}'' @ ''\<newline>''
            \<and> status_of (rw (generateHandler wd (NewResponseWriter fl we) r)) = 200)
       \<and> snd (snd (queryExternalAPI wd (apply_defaults req) w)) = Return (write_error w)
       \<and> fin (generateHandler wd (NewResponseWriter fl we) r) = Return ()\<close>
proof -
  have s: "\<not> Stream (apply_defaults req)"
    using assms(3) by (simp add: apply_defaults_fields)
  have a: "snd (snd (queryExternalAPI wd (apply_defaults req) w)) = Return (write_error w)"
    unfolding queryExternalAPI_replied [OF assms(4,5,6,7)] using s by (simp add: assms(8,9))
  show ?thesis
    unfolding generateHandler_document [OF assms(1-7)]
    using a
    by (cases we)
      (simp_all add: assms(8,9) body_of_def status_of_def cors_header_def
        encode_GenerationResponse_def calls_http_Error)
qed

theorem document_reply_encoded_witness:
  \<open>body_of plain_quote (rw (generateHandler (hello_world ''k'' 200)
       (NewResponseWriter True None) (demo_post False))) =
     ''{"model":"m","response":"hello"}'' @ ''\<newline>''
   \<and> status_of (rw (generateHandler (hello_world ''k'' 200)
       (NewResponseWriter True None) (demo_post False))) = 200\<close>
  using document_reply_encoded
    [where r = "demo_post False" and wd = "hello_world ''k'' 200"
       and req = "demo_request False" and key = "''k''" and bytes = "''request bytes''"
       and resp = "\<lparr>StatusCode = 200, RespBody = hello_body\<rparr>"
       and result = hello_result and c = "\<lparr>Text = ''hello''\<rparr>" and cs = "[]"
       and q = plain_quote and fl = True and we = None
       and w = "NewResponseWriter True None"]
  by (simp add: hello_world_def demo_world_def demo_request_def demo_post_def
      hello_result_def plain_quote_def apply_defaults_def)

text \<open>
  Claim C4 as stated fails in two ways. In its example (model \<^verbatim>\<open>m\<close>, an upstream
  body that decodes to the single choice \<^verbatim>\<open>hello\<close>) the body written is not the
  bare object of the claim: it ends with a newline. And on a writer whose write fails,
  the encoding is not all the handler writes: the calls of \<^verbatim>\<open>http.Error\<close> follow.
\<close>

theorem document_reply_encoded_counterexample:
  \<open>DecodeResult (hello_world ''k'' 200) hello_body =
       Inr \<lparr>ResultChoices = [\<lparr>Text = ''hello''\<rparr>]\<rparr>
   \<and> Model (demo_request False) = ''m''
   \<and> body_of plain_quote (rw (generateHandler (hello_world ''k'' 200)
       (NewResponseWriter True None) (demo_post False))) \<noteq> ''{"model":"m","response":"hello"}''
   \<and> calls (rw (generateHandler (hello_world ''k'' 200)
       (NewResponseWriter True (Some ''write: broken pipe'')) (demo_post False))) =
     [HeaderSet ''Access-Control-Allow-Origin'' ''*'',
      Encode \<lparr>RespModel = ''m'', Response = ''hello'', CreatedAt = ''''\<rparr>,
      HeaderSet ''Content-Type'' ''text/plain; charset=utf-8'',
      HeaderSet ''X-Content-Type-Options'' ''nosniff'',
      WriteHeader 500, Write (''write: broken pipe'' @ ''\<newline>'')]\<close>
  by (simp add: run_defs hello_world_def hello_result_def hello_body_def plain_quote_def
      body_of_def encode_GenerationResponse_def)

text \<open>
  Claim C5. In non-streaming mode, when the upstream body decodes to an empty list of
  choices, \<^verbatim>\<open>queryExternalAPI\<close> returns the error \<^verbatim>\<open>no choices returned\<close> and
  the handler answers with status 500 and that text (and a newline) as body; its calls on
  the writer are those of \<^verbatim>\<open>http.Error\<close>, with no \<^verbatim>\<open>Encode\<close> among them.
\<close>

theorem no_choices_is_500:
  assumes "Method r = ''POST''" and "DecodeRequest wd (Body r) = Inr req" and "\<not> Stream req"
    and "Getenv wd ''TOGETHER_API_KEY'' = key" and "key \<noteq> ''''"
    and "Marshal wd (request_map (apply_defaults req)) = Inr bytes"
    and "Do wd (upstream_request key bytes) = Inr resp"
    and "DecodeResult wd (RespBody resp) = Inr result"
    and "ResultChoices result = []"
  shows "snd (snd (queryExternalAPI wd (apply_defaults req) w)) =
           Return (Some ''no choices returned'')
       \<and> status_of (rw (generateHandler wd (NewResponseWriter fl we) r)) = 500
       \<and> body_of q (rw (generateHandler wd (NewResponseWriter fl we) r)) =
           ''no choices returned'' @ ''\<newline>''
       \<and> calls (rw (generateHandler wd (NewResponseWriter fl we) r)) =
           [cors_header,
            HeaderSet ''Content-Type'' ''text/plain; charset=utf-8'',
            HeaderSet ''X-Content-Type-Options'' ''nosniff'',
            WriteHeader 500, Write (''no choices returned'' @ ''\<newline>'')]
       \<and> fin (generateHandler wd (NewResponseWriter fl we) r) = Return ()"
proof -
  have s: "\<not> Stream (apply_defaults req)"
    using assms(3) by (simp add: apply_defaults_fields)
  have a: "snd (snd (queryExternalAPI wd (apply_defaults req) w)) =
             Return (Some ''no choices returned'')"
    unfolding queryExternalAPI_replied [OF assms(4,5,6,7)] using s by (simp add: assms(8,9))
  have run: "generateHandler wd (NewResponseWriter fl we) r =
      \<lparr>rw = http_Error \<lparr>implements_Flusher = fl, write_error = we, calls = [cors_header]\<rparr>
              ''no choices returned'' 500,
       sent = [upstream_request key bytes], fin = Return ()\<rparr>"
    unfolding generateHandler_document [OF assms(1-7)] by (simp add: assms(8,9))
  show ?thesis
    using a error_reply [of fl we "''no choices returned''" 500 q]
    by (simp add: run calls_http_Error)
qed

theorem no_choices_is_500_witness:
  "status_of (rw (generateHandler (no_text_world False) (NewResponseWriter True None)
       (demo_post False))) = 500
   \<and> body_of plain_quote (rw (generateHandler (no_text_world False)
       (NewResponseWriter True None) (demo_post False))) =
     ''no choices returned'' @ ''\<newline>''"
  using no_choices_is_500
    [where r = "demo_post False" and wd = "no_text_world False"
       and req = "demo_request False" and key = "''k''" and bytes = "''request bytes''"
       and resp = "\<lparr>StatusCode = 200, RespBody = no_text_body\<rparr>"
       and result = "\<lparr>ResultChoices = []\<rparr>" and q = plain_quote and fl = True and we = None
       and w = "NewResponseWriter True None"]
  by (simp add: no_text_world_def demo_world_def demo_request_def demo_post_def)

subsection \<open>The credential\<close>

text \<open>
  Claim C7. When \<^verbatim>\<open>TOGETHER_API_KEY\<close> is absent, \<^verbatim>\<open>queryExternalAPI\<close> returns
  its configuration error for every request, streaming or not, leaving the writer
  untouched and having issued no upstream request; the handler then answers with status
  500 and that error text (and a newline) as body.
\<close>

theorem missing_key_is_500:
  assumes "Getenv wd ''TOGETHER_API_KEY'' = ''''"
    and "Method r = ''POST''" and "DecodeRequest wd (Body r) = Inr req"
  shows "queryExternalAPI wd any_req w =
           (w, [], Return (Some ''API key not set in TOGETHER_API_KEY environment variable''))
       \<and> sent (generateHandler wd (NewResponseWriter fl we) r) = []
       \<and> status_of (rw (generateHandler wd (NewResponseWriter fl we) r)) = 500
       \<and> body_of q (rw (generateHandler wd (NewResponseWriter fl we) r)) =
           ''API key not set in TOGETHER_API_KEY environment variable'' @ ''\<newline>''
       \<and> fin (generateHandler wd (NewResponseWriter fl we) r) = Return ()"
proof -
  have run: "generateHandler wd (NewResponseWriter fl we) r =
      \<lparr>rw = http_Error \<lparr>implements_Flusher = fl, write_error = we, calls = [cors_header]\<rparr>
              ''API key not set in TOGETHER_API_KEY environment variable'' 500,
       sent = [], fin = Return ()\<rparr>"
    unfolding generateHandler_decoded [OF assms(2,3)] queryExternalAPI_no_key [OF assms(1)]
    by (simp add: NewResponseWriter_def called_def)
  show ?thesis
    using error_reply
      [of fl we "''API key not set in TOGETHER_API_KEY environment variable''" 500 q]
    by (simp add: run queryExternalAPI_no_key [OF assms(1)])
qed

theorem missing_key_is_500_witness:
  "sent (generateHandler (hi_there_world '''' 200) (NewResponseWriter True None)
       (demo_post True)) = []
   \<and> status_of (rw (generateHandler (hi_there_world '''' 200) (NewResponseWriter True None)
       (demo_post True))) = 500
   \<and> sent (generateHandler (hello_world '''' 200) (NewResponseWriter True None)
       (demo_post False)) = []
   \<and> status_of (rw (generateHandler (hello_world '''' 200) (NewResponseWriter True None)
       (demo_post False))) = 500"
  using missing_key_is_500
    [where r = "demo_post True" and wd = "hi_there_world '''' 200"
       and req = "demo_request True" and fl = True and we = None
       and w = "NewResponseWriter True None" and any_req = "demo_request True"
       and q = plain_quote]
    missing_key_is_500
    [where r = "demo_post False" and wd = "hello_world '''' 200"
       and req = "demo_request False" and fl = True and we = None
       and w = "NewResponseWriter True None" and any_req = "demo_request False"
       and q = plain_quote]
  by (simp add: hi_there_world_def hello_world_def demo_world_def demo_post_def)

subsection \<open>Defaults\<close>

text \<open>
  Claim C6. For a decoded inbound request the handler passes to the upstream call the
  request with exactly the zero-valued optional fields rewritten: an empty model becomes
  \<^verbatim>\<open>meta-llama/Llama-3-8b-chat-hf\<close>, \<^verbatim>\<open>max_tokens\<close> 0 becomes 512,
  temperature 0 becomes 0.1; other values, the prompt and the stream flag are unchanged.
  An explicit temperature of 0 has the effect of an explicit 0.1.
\<close>

theorem defaults_applied:
  assumes "Method r = ''POST''" and "DecodeRequest wd (Body r) = Inr req"
  shows "Model (apply_defaults req) =
           (if Model req = '''' then ''meta-llama/Llama-3-8b-chat-hf'' else Model req)
       \<and> MaxTokens (apply_defaults req) = (if MaxTokens req = 0 then 512 else MaxTokens req)
       \<and> Temperature (apply_defaults req) =
           (if Temperature req = 0 then 0.1 else Temperature req)
       \<and> Prompt (apply_defaults req) = Prompt req
       \<and> Stream (apply_defaults req) = Stream req
       \<and> apply_defaults (req\<lparr>Temperature := 0\<rparr>) = apply_defaults (req\<lparr>Temperature := 0.1\<rparr>)
       \<and> generateHandler wd w r =
           (case queryExternalAPI wd (apply_defaults req)
                   (Header_Set w ''Access-Control-Allow-Origin'' ''*'') of
              (w', issued, Panic p) \<Rightarrow> \<lparr>rw = w', sent = issued, fin = Panic p\<rparr>
            | (w', issued, Return None) \<Rightarrow> \<lparr>rw = w', sent = issued, fin = Return ()\<rparr>
            | (w', issued, Return (Some err)) \<Rightarrow>
                \<lparr>rw = http_Error w' err 500, sent = issued, fin = Return ()\<rparr>)"
proof -
  have t: "apply_defaults (req\<lparr>Temperature := 0\<rparr>) = apply_defaults (req\<lparr>Temperature := 0.1\<rparr>)"
    by (simp add: apply_defaults_def Let_def)
  have h: "Header_Set w ''Access-Control-Allow-Origin'' ''*'' = called w cors_header"
    by (simp add: Header_Set_def cors_header_def)
  show ?thesis
    unfolding h generateHandler_decoded [OF assms, symmetric]
    using t by (simp add: apply_defaults_fields)
qed

theorem defaults_applied_witness:
  "Model (apply_defaults bare_request) = ''meta-llama/Llama-3-8b-chat-hf''
   \<and> MaxTokens (apply_defaults bare_request) = 512
   \<and> Temperature (apply_defaults bare_request) = 0.1
   \<and> Prompt (apply_defaults bare_request) = ''Say hello''"
  using defaults_applied
    [where r = bare_post and wd = bare_world and req = bare_request
       and w = "NewResponseWriter True None"]
  by (simp add: bare_world_def bare_post_def bare_request_def demo_world_def apply_defaults_def)

subsection \<open>The upstream status code\<close>

lemma queryExternalAPI_with_status:
  "queryExternalAPI (with_status code wd) req w = queryExternalAPI wd req w"
  unfolding queryExternalAPI_def with_status_def
  by (simp add: Let_def del: relay_loop.simps split: sum.splits cong: if_cong)

lemma generateHandler_with_status:
  "generateHandler (with_status code wd) w r = generateHandler wd w r"
proof -
  have d: "DecodeRequest (with_status code wd) = DecodeRequest wd"
    by (simp add: with_status_def)
  show ?thesis
    unfolding generateHandler_def queryExternalAPI_with_status d by (rule refl)
qed

text \<open>
  Claim C8. The status code of the upstream response is never read: a run of the
  handler is the same whatever status the upstream answers with. So, whatever the
  status of the response \<open>resp\<close> (it is not constrained below): in non-streaming mode a
  body that decodes to a choice is relayed with status 200 (when the write succeeds),
  and one that does not decode gives status 500 with the text of the decode error; in
  streaming mode the fragments of the chunks that decode are relayed with status 200,
  each written and flushed, and a body that stops decoding gives no error: what was
  decoded before the malformed chunk is relayed, which is nothing when the first chunk is
  the malformed one.
\<close>

theorem upstream_status_never_inspected:
  assumes "Method r = ''POST''" and "DecodeRequest wd (Body r) = Inr req"
    and "Getenv wd ''TOGETHER_API_KEY'' = key" and "key \<noteq> ''''"
    and "Marshal wd (request_map (apply_defaults req)) = Inr bytes"
    and "Do wd (upstream_request key bytes) = Inr resp"
  shows "generateHandler (with_status code wd) w r = generateHandler wd w r
       \<and> (\<not> Stream req \<and> DecodeResult wd (RespBody resp) = Inr result
            \<and> ResultChoices result = c # cs \<and> we = None \<longrightarrow>
          status_of (rw (generateHandler wd (NewResponseWriter fl we) r)) = 200
          \<and> calls (rw (generateHandler wd (NewResponseWriter fl we) r)) =
              [cors_header,
               Encode \<lparr>RespModel = Model (apply_defaults req), Response = Text c,
                       CreatedAt = ''''\<rparr>])
       \<and> (\<not> Stream req \<and> DecodeResult wd (RespBody resp) = Inl err \<longrightarrow>
          status_of (rw (generateHandler wd (NewResponseWriter fl we) r)) = 500
          \<and> body_of q (rw (generateHandler wd (NewResponseWriter fl we) r)) =
              ''failed to decode response: '' @ err @ ''\<newline>'')
       \<and> (Stream req \<and> (fl \<or> fragments (NewDecoder wd (RespBody resp)) = []) \<longrightarrow>
          status_of (rw (generateHandler wd (NewResponseWriter fl we) r)) = 200
          \<and> calls (rw (generateHandler wd (NewResponseWriter fl we) r)) =
              cors_header # stream_headers
                @ flushed_writes (fragments (NewDecoder wd (RespBody resp)))
          \<and> body_of q (rw (generateHandler wd (NewResponseWriter fl we) r)) =
              concat (fragments (NewDecoder wd (RespBody resp)))
          \<and> fin (generateHandler wd (NewResponseWriter fl we) r) = Return ())
       \<and> (Stream req \<and> NewDecoder wd (RespBody resp) = map Decoded pre @ DecodeError err # rest
            \<and> (fl \<or> filter (\<lambda>s. s \<noteq> '''') (map first_content pre) = []) \<longrightarrow>
          status_of (rw (generateHandler wd (NewResponseWriter fl we) r)) = 200
          \<and> body_of q (rw (generateHandler wd (NewResponseWriter fl we) r)) =
              concat (filter (\<lambda>s. s \<noteq> '''') (map first_content pre))
          \<and> fin (generateHandler wd (NewResponseWriter fl we) r) = Return ())
       \<and> (Stream req \<and> NewDecoder wd (RespBody resp) = DecodeError err # rest \<longrightarrow>
          status_of (rw (generateHandler wd (NewResponseWriter fl we) r)) = 200
          \<and> body_of q (rw (generateHandler wd (NewResponseWriter fl we) r)) = ''''
          \<and> fin (generateHandler wd (NewResponseWriter fl we) r) = Return ())"
proof -
  have a: "generateHandler (with_status code wd) w r = generateHandler wd w r"
    by (rule generateHandler_with_status)
  have b: "status_of (rw (generateHandler wd (NewResponseWriter fl we) r)) = 200
          \<and> calls (rw (generateHandler wd (NewResponseWriter fl we) r)) =
              [cors_header,
               Encode \<lparr>RespModel = Model (apply_defaults req), Response = Text c,
                       CreatedAt = ''''\<rparr>]"
    if "\<not> Stream req" and "DecodeResult wd (RespBody resp) = Inr result"
      and "ResultChoices result = c # cs" and "we = None"
    unfolding generateHandler_document [OF assms(1,2) that(1) assms(3-6)]
    by (simp add: that(2,3,4) status_of_def cors_header_def)
  have c: "status_of (rw (generateHandler wd (NewResponseWriter fl we) r)) = 500
          \<and> body_of q (rw (generateHandler wd (NewResponseWriter fl we) r)) =
              ''failed to decode response: '' @ err @ ''\<newline>''"
    if "\<not> Stream req" and "DecodeResult wd (RespBody resp) = Inl err"
    unfolding generateHandler_document [OF assms(1,2) that(1) assms(3-6)]
    using error_reply [of fl we "''failed to decode response: '' @ err" 500 q]
    by (simp add: that(2))
  have d: "status_of (rw (generateHandler wd (NewResponseWriter fl we) r)) = 200
          \<and> calls (rw (generateHandler wd (NewResponseWriter fl we) r)) =
              cors_header # stream_headers
                @ flushed_writes (fragments (NewDecoder wd (RespBody resp)))
          \<and> body_of q (rw (generateHandler wd (NewResponseWriter fl we) r)) =
              concat (fragments (NewDecoder wd (RespBody resp)))
          \<and> fin (generateHandler wd (NewResponseWriter fl we) r) = Return ()"
    if "Stream req" and "fl \<or> fragments (NewDecoder wd (RespBody resp)) = []"
  proof -
    note run = streaming_run [OF assms(1,2) that(1) assms(3-6) that(2), where we = we]
    from run(3) run(1) run(2) [where q = q] run(5) show ?thesis by (intro conjI)
  qed
  have e: "status_of (rw (generateHandler wd (NewResponseWriter fl we) r)) = 200
          \<and> body_of q (rw (generateHandler wd (NewResponseWriter fl we) r)) =
              concat (filter (\<lambda>s. s \<noteq> '''') (map first_content pre))
          \<and> fin (generateHandler wd (NewResponseWriter fl we) r) = Return ()"
    if "Stream req" and "NewDecoder wd (RespBody resp) = map Decoded pre @ DecodeError err # rest"
      and "fl \<or> filter (\<lambda>s. s \<noteq> '''') (map first_content pre) = []"
  proof -
    have f: "fragments (NewDecoder wd (RespBody resp)) =
               filter (\<lambda>s. s \<noteq> '''') (map first_content pre)"
      by (simp add: that(2) fragments_def decoded_prefix_until_error)
    have ok: "fl \<or> fragments (NewDecoder wd (RespBody resp)) = []"
      using that(3) by (simp only: f)
    from d [OF that(1) ok] show ?thesis by (simp only: f simp_thms)
  qed
  have g: "status_of (rw (generateHandler wd (NewResponseWriter fl we) r)) = 200
          \<and> body_of q (rw (generateHandler wd (NewResponseWriter fl we) r)) = ''''
          \<and> fin (generateHandler wd (NewResponseWriter fl we) r) = Return ()"
    if "Stream req" and "NewDecoder wd (RespBody resp) = DecodeError err # rest"
  proof -
    have f: "fragments (NewDecoder wd (RespBody resp)) = []"
      by (simp add: that(2) fragments_DecodeError)
    then have ok: "fl \<or> fragments (NewDecoder wd (RespBody resp)) = []"
      by simp
    from d [OF that(1) ok] show ?thesis by (simp add: f)
  qed
  from a b c d e g show ?thesis by blast
qed

theorem upstream_status_never_inspected_witness:
  \<open>status_of (rw (generateHandler (hello_world ''k'' 500)
       (NewResponseWriter True None) (demo_post False))) = 200
   \<and> calls (rw (generateHandler (hello_world ''k'' 500)
       (NewResponseWriter True None) (demo_post False))) =
     [HeaderSet ''Access-Control-Allow-Origin'' ''*'',
      Encode \<lparr>RespModel = ''m'', Response = ''hello'', CreatedAt = ''''\<rparr>]
   \<and> status_of (rw (generateHandler (refused_world False 401)
       (NewResponseWriter True None) (demo_post False))) = 500
   \<and> body_of plain_quote (rw (generateHandler (refused_world False 401)
       (NewResponseWriter True None) (demo_post False))) =
     ''failed to decode response: '' @ refused @ ''\<newline>''
   \<and> status_of (rw (generateHandler (hi_there_world ''k'' 500)
       (NewResponseWriter True None) (demo_post True))) = 200
   \<and> body_of plain_quote (rw (generateHandler (hi_there_world ''k'' 500)
       (NewResponseWriter True None) (demo_post True))) = ''Hi there''
   \<and> status_of (rw (generateHandler (cut_short_world 503)
       (NewResponseWriter True None) (demo_post True))) = 200
   \<and> body_of plain_quote (rw (generateHandler (cut_short_world 503)
       (NewResponseWriter True None) (demo_post True))) = ''Hi''
   \<and> status_of (rw (generateHandler (refused_world True 429)
       (NewResponseWriter True None) (demo_post True))) = 200
   \<and> body_of plain_quote (rw (generateHandler (refused_world True 429)
       (NewResponseWriter True None) (demo_post True))) = ''''\<close>
  using upstream_status_never_inspected
    [where r = "demo_post False" and wd = "hello_world ''k'' 500"
       and req = "demo_request False" and key = "''k''" and bytes = "''request bytes''"
       and resp = "\<lparr>StatusCode = 500, RespBody = hello_body\<rparr>"
       and result = hello_result and c = "\<lparr>Text = ''hello''\<rparr>" and cs = "[]"
       and q = plain_quote and fl = True and we = None and code = 200
       and w = "NewResponseWriter True None" and err = "''''" and rest = "[]" and pre = "[]"]
    upstream_status_never_inspected
    [where r = "demo_post False" and wd = "refused_world False 401"
       and req = "demo_request False" and key = "''k''" and bytes = "''request bytes''"
       and resp = "\<lparr>StatusCode = 401, RespBody = ''upstream unavailable''\<rparr>"
       and err = refused and q = plain_quote and fl = True and we = None and code = 200
       and w = "NewResponseWriter True None" and rest = "[]" and pre = "[]"
       and result = hello_result and c = "\<lparr>Text = ''hello''\<rparr>" and cs = "[]"]
    upstream_status_never_inspected
    [where r = "demo_post True" and wd = "hi_there_world ''k'' 500"
       and req = "demo_request True" and key = "''k''" and bytes = "''request bytes''"
       and resp = "\<lparr>StatusCode = 500, RespBody = hi_there_body\<rparr>"
       and q = plain_quote and fl = True and we = None and code = 200
       and w = "NewResponseWriter True None" and err = "''''" and rest = "[]" and pre = "[]"
       and result = hello_result and c = "\<lparr>Text = ''hello''\<rparr>" and cs = "[]"]
    upstream_status_never_inspected
    [where r = "demo_post True" and wd = "cut_short_world 503"
       and req = "demo_request True" and key = "''k''" and bytes = "''request bytes''"
       and resp = "\<lparr>StatusCode = 503, RespBody = cut_short_body\<rparr>"
       and pre = "[text_chunk ''Hi'']"
       and err = "''invalid character 'g' looking for beginning of value''"
       and rest = "[Decoded (text_chunk '' there'')]" and q = plain_quote
       and fl = True and we = None and code = 200 and w = "NewResponseWriter True None"
       and result = hello_result and c = "\<lparr>Text = ''hello''\<rparr>" and cs = "[]"]
    upstream_status_never_inspected
    [where r = "demo_post True" and wd = "refused_world True 429"
       and req = "demo_request True" and key = "''k''" and bytes = "''request bytes''"
       and resp = "\<lparr>StatusCode = 429, RespBody = ''upstream unavailable''\<rparr>"
       and err = refused and rest = "[]" and q = plain_quote and fl = True and we = None
       and code = 200 and w = "NewResponseWriter True None" and pre = "[]"
       and result = hello_result and c = "\<lparr>Text = ''hello''\<rparr>" and cs = "[]"]
  by (simp add: hello_world_def refused_world_def hi_there_world_def cut_short_world_def
      demo_world_def demo_request_def demo_post_def hello_result_def hi_there_def cut_short_def
      text_chunk_def fragments_def first_content_def cors_header_def apply_defaults_def)

subsection \<open>The two output forms\<close>

lemma queryExternalAPI_marshal_failed:
  assumes "Getenv wd ''TOGETHER_API_KEY'' \<noteq> ''''"
    and "Marshal wd (request_map req) = Inl e"
  shows "queryExternalAPI wd req w =
           (w, [], Return (Some (''failed to marshal request: '' @ e)))"
proof -
  have m: "Marshal wd
              [(''model'', JString (Model req)),
               (''prompt'', JString (Prompt req)),
               (''max_tokens'', JInt (MaxTokens req)),
               (''temperature'', JFloat (Temperature req)),
               (''stream'', JBool (Stream req))] = Inl e"
    using assms(2) by (simp add: request_map_def)
  show ?thesis
    unfolding queryExternalAPI_def using m assms(1) by (simp add: Let_def)
qed

lemma queryExternalAPI_request_failed:
  assumes "Getenv wd ''TOGETHER_API_KEY'' = key" and "key \<noteq> ''''"
    and "Marshal wd (request_map req) = Inr bytes"
    and "Do wd (upstream_request key bytes) = Inl e"
  shows "queryExternalAPI wd req w =
           (w, [upstream_request key bytes], Return (Some (''request failed: '' @ e)))"
proof -
  have m: "Marshal wd
              [(''model'', JString (Model req)),
               (''prompt'', JString (Prompt req)),
               (''max_tokens'', JInt (MaxTokens req)),
               (''temperature'', JFloat (Temperature req)),
               (''stream'', JBool (Stream req))] = Inr bytes"
    using assms(3) by (simp add: request_map_def)
  show ?thesis
    unfolding queryExternalAPI_def
    using m assms(1,2,4)
    by (simp add: Let_def http_NewRequest_def ReqHeader_Set_def upstream_request_def)
qed

text \<open>
  Either the upstream replied, or the function returns an error and leaves the writer
  alone.
\<close>

lemma queryExternalAPI_outcomes:
  "(\<exists>issued e. queryExternalAPI wd req w = (w, issued, Return (Some e)))
   \<or> (\<exists>key bytes resp. Getenv wd ''TOGETHER_API_KEY'' = key \<and> key \<noteq> ''''
         \<and> Marshal wd (request_map req) = Inr bytes
         \<and> Do wd (upstream_request key bytes) = Inr resp)"
proof (cases "Getenv wd ''TOGETHER_API_KEY'' = ''''")
  case True
  then show ?thesis by (simp add: queryExternalAPI_no_key)
next
  case key: False
  show ?thesis
  proof (cases "Marshal wd (request_map req)")
    case (Inl e)
    then show ?thesis by (simp add: queryExternalAPI_marshal_failed [OF key])
  next
    case bytes: (Inr bytes)
    show ?thesis
    proof (cases "Do wd (upstream_request (Getenv wd ''TOGETHER_API_KEY'') bytes)")
      case (Inl e)
      then show ?thesis
        by (simp add: queryExternalAPI_request_failed [OF refl key bytes])
    next
      case (Inr resp)
      with key bytes show ?thesis by simp
    qed
  qed
qed

lemma generateHandler_not_post:
  "Method r \<noteq> ''POST'' \<Longrightarrow>
   generateHandler wd (NewResponseWriter fl we) r =
     \<lparr>rw = http_Error \<lparr>implements_Flusher = fl, write_error = we, calls = [cors_header]\<rparr>
             ''Method not allowed'' 405,
      sent = [], fin = Return ()\<rparr>"
  by (simp add: generateHandler_def Header_Set_def called_def NewResponseWriter_def
      cors_header_def)

lemma generateHandler_bad_body:
  "Method r = ''POST'' \<Longrightarrow> DecodeRequest wd (Body r) = Inl err \<Longrightarrow>
   generateHandler wd (NewResponseWriter fl we) r =
     \<lparr>rw = http_Error \<lparr>implements_Flusher = fl, write_error = we, calls = [cors_header]\<rparr>
             err 400,
      sent = [], fin = Return ()\<rparr>"
  by (simp add: generateHandler_def Header_Set_def called_def NewResponseWriter_def
      cors_header_def)

lemma generateHandler_upstream_error:
  assumes "Method r = ''POST''" and "DecodeRequest wd (Body r) = Inr req"
    and "queryExternalAPI wd (apply_defaults req) (called (NewResponseWriter fl we) cors_header) =
           (called (NewResponseWriter fl we) cors_header, issued, Return (Some e))"
  shows "generateHandler wd (NewResponseWriter fl we) r =
     \<lparr>rw = http_Error \<lparr>implements_Flusher = fl, write_error = we, calls = [cors_header]\<rparr>
             e 500,
      sent = issued, fin = Return ()\<rparr>"
  unfolding generateHandler_decoded [OF assms(1,2)] assms(3)
  by (simp add: called_def NewResponseWriter_def)

lemma error_reported_http_Error: "error_reported (http_Error w msg code)"
  by (simp add: error_reported_def calls_http_Error)

lemma output_calls_stream:
  "output_calls \<lparr>implements_Flusher = fl, write_error = we,
       calls = cors_header # stream_headers @ flushed_writes fs\<rparr> = flushed_writes fs"
proof -
  have "filter (\<lambda>c. \<not> is_header_call c) (flushed_writes gs) = flushed_writes gs" for gs
    by (induction gs) (simp_all add: flushed_writes_Nil flushed_writes_Cons)
  then show ?thesis
    by (simp add: output_calls_def cors_header_def stream_headers_def)
qed

lemma forms_stream:
  "streamed_form \<lparr>implements_Flusher = fl, write_error = we,
       calls = cors_header # stream_headers @ flushed_writes fs\<rparr> = (fs \<noteq> [])
   \<and> \<not> encoded_form \<lparr>implements_Flusher = fl, write_error = we,
       calls = cors_header # stream_headers @ flushed_writes fs\<rparr>
   \<and> (\<forall>v. Encode v \<notin> set (cors_header # stream_headers @ flushed_writes fs))"
proof -
  have raw: "list_all is_raw (flushed_writes fs)"
    by (induction fs) (simp_all add: flushed_writes_Nil flushed_writes_Cons)
  have enc: "Encode v \<notin> set (flushed_writes fs)" for v
    by (induction fs) (simp_all add: flushed_writes_Nil flushed_writes_Cons)
  have one: "(case flushed_writes fs of [Encode v] \<Rightarrow> True | _ \<Rightarrow> False) = False"
    by (cases fs) (simp_all add: flushed_writes_Nil flushed_writes_Cons)
  have ne: "(flushed_writes fs \<noteq> []) = (fs \<noteq> [])"
    by (cases fs) (simp_all add: flushed_writes_Nil flushed_writes_Cons)
  have hdr: "sent_header (cors_header # stream_headers @ flushed_writes fs) Map.empty
               ''Content-Type'' = Some ''text/event-stream''"
    by (simp add: header_stream_calls)
  show ?thesis
    unfolding streamed_form_def encoded_form_def output_calls_stream header_of_def
    using raw enc one ne hdr by (simp add: cors_header_def stream_headers_def)
qed

lemma forms_document:
  "encoded_form \<lparr>implements_Flusher = fl, write_error = we, calls = [cors_header, Encode v]\<rparr>
   \<and> \<not> streamed_form
         \<lparr>implements_Flusher = fl, write_error = we, calls = [cors_header, Encode v]\<rparr>"
  by (simp add: encoded_form_def streamed_form_def output_calls_def header_of_def
      cors_header_def)

text \<open>
  Claim C3, as amended. For every request that completes without an error (the handler
  returns and reports none), the two output forms are never both written: the request
  was decoded and the upstream replied, and then, when the stream flag is not set, the
  output is a single encoded \<^verbatim>\<open>GenerationResponse\<close> and not a stream; when it is
  set, no \<^verbatim>\<open>GenerationResponse\<close> is encoded, what is written is one write and one
  flush for each fragment, and this is a raw streamed byte sequence exactly when the
  upstream carried a fragment: without one, nothing at all is written.
\<close>

theorem exactly_one_output_form:
  assumes "fin (generateHandler wd (NewResponseWriter fl we) r) = Return ()"
    and "\<not> error_reported (rw (generateHandler wd (NewResponseWriter fl we) r))"
  shows "\<not> (encoded_form (rw (generateHandler wd (NewResponseWriter fl we) r))
            \<and> streamed_form (rw (generateHandler wd (NewResponseWriter fl we) r)))
       \<and> (\<exists>req key bytes resp.
            DecodeRequest wd (Body r) = Inr req
            \<and> Getenv wd ''TOGETHER_API_KEY'' = key
            \<and> Marshal wd (request_map (apply_defaults req)) = Inr bytes
            \<and> Do wd (upstream_request key bytes) = Inr resp
            \<and> (if Stream req
               then output_calls (rw (generateHandler wd (NewResponseWriter fl we) r)) =
                      flushed_writes (fragments (NewDecoder wd (RespBody resp)))
                    \<and> streamed_form (rw (generateHandler wd (NewResponseWriter fl we) r)) =
                        (fragments (NewDecoder wd (RespBody resp)) \<noteq> [])
                    \<and> \<not> encoded_form (rw (generateHandler wd (NewResponseWriter fl we) r))
                    \<and> (\<forall>v. Encode v \<notin>
                          set (calls (rw (generateHandler wd (NewResponseWriter fl we) r))))
               else encoded_form (rw (generateHandler wd (NewResponseWriter fl we) r))
                    \<and> \<not> streamed_form (rw (generateHandler wd (NewResponseWriter fl we) r))))"
proof -
  let ?run = "generateHandler wd (NewResponseWriter fl we) r"
  have err: False
    if "?run = \<lparr>rw = http_Error v msg code, sent = issued, fin = Return ()\<rparr>"
    for v msg code issued
    using assms(2) error_reported_http_Error [of v msg code] that by simp
  have post: "Method r = ''POST''"
  proof (rule ccontr)
    assume "Method r \<noteq> ''POST''"
    from err [OF generateHandler_not_post [OF this]] show False .
  qed
  obtain req where req: "DecodeRequest wd (Body r) = Inr req"
  proof (cases "DecodeRequest wd (Body r)")
    case (Inl e)
    from err [OF generateHandler_bad_body [OF post Inl]] have False .
    then show ?thesis ..
  next
    case (Inr req)
    then show ?thesis by (rule that)
  qed
  have replied: "\<exists>key bytes resp. Getenv wd ''TOGETHER_API_KEY'' = key \<and> key \<noteq> ''''
         \<and> Marshal wd (request_map (apply_defaults req)) = Inr bytes
         \<and> Do wd (upstream_request key bytes) = Inr resp"
    using queryExternalAPI_outcomes
      [of wd "apply_defaults req" "called (NewResponseWriter fl we) cors_header"]
  proof (elim disjE exE)
    fix issued e
    assume q: "queryExternalAPI wd (apply_defaults req)
                 (called (NewResponseWriter fl we) cors_header) =
               (called (NewResponseWriter fl we) cors_header, issued, Return (Some e))"
    from err [OF generateHandler_upstream_error [OF post req q]] have False .
    then show ?thesis ..
  next
    fix key bytes resp
    assume "Getenv wd ''TOGETHER_API_KEY'' = key \<and> key \<noteq> ''''
         \<and> Marshal wd (request_map (apply_defaults req)) = Inr bytes
         \<and> Do wd (upstream_request key bytes) = Inr resp"
    then show ?thesis by blast
  qed
  then obtain key bytes resp where up:
    "Getenv wd ''TOGETHER_API_KEY'' = key" "key \<noteq> ''''"
    "Marshal wd (request_map (apply_defaults req)) = Inr bytes"
    "Do wd (upstream_request key bytes) = Inr resp"
    by blast
  show ?thesis
  proof (cases "Stream req")
    case True
    have ok: "fl \<or> fragments (NewDecoder wd (RespBody resp)) = []"
      using assms(1) generateHandler_stream [OF post req True up, of fl we]
      by (cases "fl \<or> fragments (NewDecoder wd (RespBody resp)) = []") simp_all
    have run: "rw ?run = \<lparr>implements_Flusher = fl, write_error = we,
        calls = cors_header # stream_headers
          @ flushed_writes (fragments (NewDecoder wd (RespBody resp)))\<rparr>"
      using generateHandler_stream [OF post req True up, of fl we] ok by simp
    have "\<exists>key bytes resp.
            Getenv wd ''TOGETHER_API_KEY'' = key
            \<and> Marshal wd (request_map (apply_defaults req)) = Inr bytes
            \<and> Do wd (upstream_request key bytes) = Inr resp
            \<and> output_calls (rw ?run) =
                 flushed_writes (fragments (NewDecoder wd (RespBody resp)))
            \<and> streamed_form (rw ?run) = (fragments (NewDecoder wd (RespBody resp)) \<noteq> [])
            \<and> \<not> encoded_form (rw ?run)
            \<and> (\<forall>v. Encode v \<notin> set (calls (rw ?run)))"
      unfolding run
      using up forms_stream [of fl we "fragments (NewDecoder wd (RespBody resp))"]
        output_calls_stream [of fl we "fragments (NewDecoder wd (RespBody resp))"]
      by (intro exI [of _ key] exI [of _ bytes] exI [of _ resp]) simp
    moreover have "\<not> encoded_form (rw ?run)"
      unfolding run
      using forms_stream [of fl we "fragments (NewDecoder wd (RespBody resp))"] by simp
    ultimately show ?thesis
      using req True by auto
  next
    case False
    note doc = generateHandler_document [OF post req False up, of fl we]
    have enc: "encoded_form (rw ?run) \<and> \<not> streamed_form (rw ?run)"
    proof (cases "DecodeResult wd (RespBody resp)")
      case (Inl e)
      have "?run =
          \<lparr>rw = http_Error
                  \<lparr>implements_Flusher = fl, write_error = we, calls = [cors_header]\<rparr>
                  (''failed to decode response: '' @ e) 500,
           sent = [upstream_request key bytes], fin = Return ()\<rparr>"
        unfolding doc by (simp only: Inl sum.case)
      from err [OF this] show ?thesis ..
    next
      case (Inr result)
      show ?thesis
      proof (cases "ResultChoices result")
        case Nil
        have "?run =
            \<lparr>rw = http_Error
                    \<lparr>implements_Flusher = fl, write_error = we, calls = [cors_header]\<rparr>
                    ''no choices returned'' 500,
             sent = [upstream_request key bytes], fin = Return ()\<rparr>"
          unfolding doc by (simp only: Inr Nil sum.case list.case)
        from err [OF this] show ?thesis ..
      next
        case (Cons c cs)
        show ?thesis
        proof (cases we)
          case None
          have run: "rw ?run = \<lparr>implements_Flusher = fl, write_error = we,
              calls = [cors_header,
                       Encode \<lparr>RespModel = Model (apply_defaults req), Response = Text c,
                               CreatedAt = ''''\<rparr>]\<rparr>"
            using doc Inr Cons None by simp
          show ?thesis
            unfolding run by (rule forms_document)
        next
          case (Some e)
          have "?run =
              \<lparr>rw = http_Error
                      \<lparr>implements_Flusher = fl, write_error = we,
                       calls = [cors_header,
                                Encode \<lparr>RespModel = Model (apply_defaults req),
                                        Response = Text c, CreatedAt = ''''\<rparr>]\<rparr>
                      e 500,
               sent = [upstream_request key bytes], fin = Return ()\<rparr>"
            unfolding doc by (simp only: Inr Cons Some sum.case list.case option.case)
          from err [OF this] show ?thesis ..
        qed
      qed
    qed
    have "\<exists>key bytes resp.
            Getenv wd ''TOGETHER_API_KEY'' = key
            \<and> Marshal wd (request_map (apply_defaults req)) = Inr bytes
            \<and> Do wd (upstream_request key bytes) = Inr resp"
      using up by blast
    with enc req False show ?thesis by auto
  qed
qed

theorem exactly_one_output_form_witness:
  "streamed_form (rw (generateHandler (hi_there_world ''k'' 200)
       (NewResponseWriter True None) (demo_post True)))
   \<and> \<not> encoded_form (rw (generateHandler (hi_there_world ''k'' 200)
       (NewResponseWriter True None) (demo_post True)))
   \<and> output_calls (rw (generateHandler (hi_there_world ''k'' 200)
       (NewResponseWriter True None) (demo_post True))) =
     [Write ''Hi'', Flush, Write '' there'', Flush]
   \<and> encoded_form (rw (generateHandler (hello_world ''k'' 200)
       (NewResponseWriter True None) (demo_post False)))
   \<and> \<not> streamed_form (rw (generateHandler (hello_world ''k'' 200)
       (NewResponseWriter True None) (demo_post False)))"
proof -
  have s: "fin (generateHandler (hi_there_world ''k'' 200)
       (NewResponseWriter True None) (demo_post True)) = Return ()
     \<and> \<not> error_reported (rw (generateHandler (hi_there_world ''k'' 200)
       (NewResponseWriter True None) (demo_post True)))"
    by (simp add: run_defs hi_there_world_def hi_there_def text_chunk_def error_reported_def)
  have d: "fin (generateHandler (hello_world ''k'' 200)
       (NewResponseWriter True None) (demo_post False)) = Return ()
     \<and> \<not> error_reported (rw (generateHandler (hello_world ''k'' 200)
       (NewResponseWriter True None) (demo_post False)))"
    by (simp add: run_defs hello_world_def hello_result_def error_reported_def)
  show ?thesis
    using exactly_one_output_form [OF conjunct1 [OF s] conjunct2 [OF s]]
      exactly_one_output_form [OF conjunct1 [OF d] conjunct2 [OF d]]
    by (simp add: hi_there_world_def hello_world_def demo_world_def demo_request_def
        hi_there_def text_chunk_def fragments_def first_content_def flushed_writes_def)
qed

text \<open>
  Claim C3 as stated fails in its "never neither": in streaming mode, on an upstream
  stream whose one chunk decodes and has no choices, the handler returns without an
  error having written nothing, neither an encoded \<^verbatim>\<open>GenerationResponse\<close> nor a
  single raw byte.
\<close>

theorem exactly_one_output_form_counterexample:
  "fin (generateHandler (no_text_world True) (NewResponseWriter True None)
       (demo_post True)) = Return ()
   \<and> \<not> error_reported (rw (generateHandler (no_text_world True)
       (NewResponseWriter True None) (demo_post True)))
   \<and> output_calls (rw (generateHandler (no_text_world True)
       (NewResponseWriter True None) (demo_post True))) = []
   \<and> body_of plain_quote (rw (generateHandler (no_text_world True)
       (NewResponseWriter True None) (demo_post True))) = ''''
   \<and> \<not> encoded_form (rw (generateHandler (no_text_world True)
       (NewResponseWriter True None) (demo_post True)))
   \<and> \<not> streamed_form (rw (generateHandler (no_text_world True)
       (NewResponseWriter True None) (demo_post True)))"
  by (simp add: run_defs no_text_world_def error_reported_def output_calls_def body_of_def
      encoded_form_def streamed_form_def)

end
